theory Spec2Isabelle
  imports Complex_Main "HOL-Library.Monad_Syntax" "HOL-Library.Sublist" "HOL-Library.Multiset"
begin

section \<open>Floating-point values\<close>

text \<open>
  The prices and indicator values of the program are Python/NumPy \<open>float64\<close> values.
  They are modelled as a real number or one of the three special values. Arithmetic on
  finite values is exact real arithmetic (rounding, overflow to infinity and the sign of
  zero are not modelled); the special values follow IEEE 754 as NumPy applies it to a
  pandas Series (a division by zero yields an infinity or NaN, it does not raise).
\<close>

datatype fval = Fin real | PInf | NInf | NaN

fun fneg :: "fval \<Rightarrow> fval" where
  "fneg (Fin a) = Fin (- a)"
| "fneg PInf = NInf"
| "fneg NInf = PInf"
| "fneg NaN = NaN"

fun fadd :: "fval \<Rightarrow> fval \<Rightarrow> fval" where
  "fadd (Fin a) (Fin b) = Fin (a + b)"
| "fadd NaN y = NaN"
| "fadd x NaN = NaN"
| "fadd PInf NInf = NaN"
| "fadd NInf PInf = NaN"
| "fadd PInf y = PInf"
| "fadd x PInf = PInf"
| "fadd NInf y = NInf"
| "fadd x NInf = NInf"

definition fsub :: "fval \<Rightarrow> fval \<Rightarrow> fval" where
  "fsub x y = fadd x (fneg y)"

fun fmul :: "fval \<Rightarrow> fval \<Rightarrow> fval" where
  "fmul (Fin a) (Fin b) = Fin (a * b)"
| "fmul NaN y = NaN"
| "fmul x NaN = NaN"
| "fmul PInf (Fin b) = (if b = 0 then NaN else if 0 < b then PInf else NInf)"
| "fmul NInf (Fin b) = (if b = 0 then NaN else if 0 < b then NInf else PInf)"
| "fmul (Fin a) PInf = (if a = 0 then NaN else if 0 < a then PInf else NInf)"
| "fmul (Fin a) NInf = (if a = 0 then NaN else if 0 < a then NInf else PInf)"
| "fmul PInf PInf = PInf"
| "fmul PInf NInf = NInf"
| "fmul NInf PInf = NInf"
| "fmul NInf NInf = PInf"

fun fdiv :: "fval \<Rightarrow> fval \<Rightarrow> fval" where
  "fdiv (Fin a) (Fin b) =
     (if b \<noteq> 0 then Fin (a / b)
      else if 0 < a then PInf else if a < 0 then NInf else NaN)"
| "fdiv NaN y = NaN"
| "fdiv x NaN = NaN"
| "fdiv (Fin a) PInf = Fin 0"
| "fdiv (Fin a) NInf = Fin 0"
| "fdiv PInf (Fin b) = (if 0 \<le> b then PInf else NInf)"
| "fdiv NInf (Fin b) = (if 0 \<le> b then NInf else PInf)"
| "fdiv PInf y = NaN"
| "fdiv NInf y = NaN"

text \<open>The comparison \<open>x < y\<close> of two floats: every comparison with NaN is false.\<close>

fun flt :: "fval \<Rightarrow> fval \<Rightarrow> bool" where
  "flt (Fin a) (Fin b) = (a < b)"
| "flt NaN y = False"
| "flt x NaN = False"
| "flt x NInf = False"
| "flt PInf y = False"
| "flt NInf y = True"
| "flt x PInf = True"

section \<open>Data frames and the object store\<close>

text \<open>
  A pandas DataFrame is a row index (timestamps as epoch seconds) and named columns of
  floats. The program holds frames by reference and \<open>calculate_bollinger_bands\<close> assigns
  columns to the object it is given, so frames live in a store of objects.
\<close>

record dataframe =
  index :: "int list"
  cols :: "string \<rightharpoonup> fval list"

type_synonym ref = nat
type_synonym heap = "ref \<rightharpoonup> dataframe"

text \<open>\<open>df[name]\<close>: \<open>None\<close> is the KeyError of a missing column.\<close>

definition getitem :: "heap \<Rightarrow> ref \<Rightarrow> string \<Rightarrow> fval list option" where
  "getitem h df name = (case h df of None \<Rightarrow> None | Some f \<Rightarrow> cols f name)"

text \<open>\<open>df[name] = series\<close>: the object \<open>df\<close> refers to is updated in place.\<close>

definition setitem :: "heap \<Rightarrow> ref \<Rightarrow> string \<Rightarrow> fval list \<Rightarrow> heap option" where
  "setitem h df name series =
     (case h df of None \<Rightarrow> None
      | Some f \<Rightarrow> Some (h(df \<mapsto> f\<lparr>cols := (cols f)(name \<mapsto> series)\<rparr>)))"

section \<open>Rolling statistics\<close>

text \<open>
  \<open>series.rolling(window=period)\<close> looks, at row \<open>i\<close>, at the rows \<open>i - period + 1 .. i\<close>
  (fewer at the start of the series). pandas counts the observations of the window that
  are neither NaN nor infinite (infinities are turned into NaN before the window
  functions run) and yields NaN unless there are at least \<open>min_periods\<close> of them;
  \<open>min_periods\<close> defaults to the window size.
\<close>

definition window :: "nat \<Rightarrow> nat \<Rightarrow> 'a list \<Rightarrow> 'a list" where
  "window period i xs = drop (Suc i - period) (take (Suc i) xs)"

fun observations :: "fval list \<Rightarrow> real list" where
  "observations [] = []"
| "observations (Fin a # xs) = a # observations xs"
| "observations (x # xs) = observations xs"

text \<open>\<open>.mean()\<close>: the sum of the observations over their number.\<close>

definition roll_mean :: "nat \<Rightarrow> fval list \<Rightarrow> nat \<Rightarrow> fval" where
  "roll_mean period xs i =
     (let obs = observations (window period i xs); nobs = length obs
      in if period \<le> nobs \<and> 0 < nobs then Fin (sum_list obs / real nobs) else NaN)"

definition rolling_mean :: "nat \<Rightarrow> fval list \<Rightarrow> fval list" where
  "rolling_mean period xs = map (roll_mean period xs) [0..<length xs]"

text \<open>\<open>.std()\<close>: pandas' default \<open>ddof=1\<close>, the sample standard deviation.\<close>

definition roll_std :: "nat \<Rightarrow> fval list \<Rightarrow> nat \<Rightarrow> fval" where
  "roll_std period xs i =
     (let obs = observations (window period i xs); nobs = length obs;
          mean = sum_list obs / real nobs
      in if period \<le> nobs \<and> 1 < nobs
         then Fin (sqrt (sum_list (map (\<lambda>x. (x - mean)\<^sup>2) obs) / real (nobs - 1)))
         else NaN)"

definition rolling_std :: "nat \<Rightarrow> fval list \<Rightarrow> fval list" where
  "rolling_std period xs = map (roll_std period xs) [0..<length xs]"

section \<open>Technical analysis\<close>

text \<open>
  \<open>calculate_bollinger_bands(df, period, std)\<close>, the same text in both source files.
  Each statement reads columns of \<open>df\<close> and assigns one; the function returns \<open>df\<close>
  itself. \<open>None\<close> is an exception escaping (a missing column or a dangling reference).
\<close>

definition calculate_bollinger_bands ::
  "heap \<Rightarrow> ref \<Rightarrow> nat \<Rightarrow> fval \<Rightarrow> (heap \<times> ref) option" where
  "calculate_bollinger_bands h df period std = do {
     close \<leftarrow> getitem h df ''Close'';
     h \<leftarrow> setitem h df ''SMA'' (rolling_mean period close);
     close \<leftarrow> getitem h df ''Close'';
     h \<leftarrow> setitem h df ''STD'' (rolling_std period close);
     sma \<leftarrow> getitem h df ''SMA'';
     sd \<leftarrow> getitem h df ''STD'';
     h \<leftarrow> setitem h df ''Upper_Band'' (map2 fadd sma (map (fmul std) sd));
     sma \<leftarrow> getitem h df ''SMA'';
     sd \<leftarrow> getitem h df ''STD'';
     h \<leftarrow> setitem h df ''Lower_Band'' (map2 fsub sma (map (fmul std) sd));
     upper \<leftarrow> getitem h df ''Upper_Band'';
     lower \<leftarrow> getitem h df ''Lower_Band'';
     sma \<leftarrow> getitem h df ''SMA'';
     h \<leftarrow> setitem h df ''Band_Width'' (map2 fdiv (map2 fsub upper lower) sma);
     Some (h, df)
   }"

section \<open>Configuration\<close>

text \<open>
  The repository holds two variants of the program: \<open>API/cron.py\<close> (a serverless
  handler) and \<open>alert_scheduler.py\<close> (a scheduled script). Functions whose text is the
  same in both files are modelled once; where the files differ the model takes the
  variant as an argument.
\<close>

datatype variant = Cron | Scheduler

definition BOLLINGER_PERIOD :: nat where
  "BOLLINGER_PERIOD = 20"

definition BOLLINGER_STD :: fval where
  "BOLLINGER_STD = Fin 2"

fun SQUEEZE_THRESHOLD :: "variant \<Rightarrow> real" where
  "SQUEEZE_THRESHOLD Cron = 0.002"
| "SQUEEZE_THRESHOLD Scheduler = 0.0002"

definition EXCLUDED_HOURS :: "nat list" where
  "EXCLUDED_HOURS = [7, 8, 9, 12, 13, 14]"

definition ALERT_COOLDOWN :: real where
  "ALERT_COOLDOWN = 3600"

section \<open>State management\<close>

text \<open>
  Both files keep the last alert time in placeholders: \<open>get_last_alert_time\<close> returns
  0 and \<open>set_last_alert_time\<close> is \<open>pass\<close>. Whatever persistent state \<open>s\<close> the deployment
  has, the first does not read it and the second does not change it.
\<close>

definition get_last_alert_time :: "'s \<Rightarrow> real" where
  "get_last_alert_time s = 0"

definition set_last_alert_time :: "real \<Rightarrow> 's \<Rightarrow> 's" where
  "set_last_alert_time timestamp s = s"

text \<open>
  The cooldown check of \<open>do_GET\<close> and \<open>main_execution\<close>:
  \<open>time_since = now - get_last_alert_time()\<close>, then \<open>time_since >= ALERT_COOLDOWN\<close>.
\<close>

definition should_dispatch :: "real \<Rightarrow> 's \<Rightarrow> bool" where
  "should_dispatch now s =
     (let last_alert = get_last_alert_time s; time_since = now - last_alert
      in time_since \<ge> ALERT_COOLDOWN)"

section \<open>The outside world\<close>

text \<open>
  An exception is its class, as far as the \<open>except\<close> clauses tell classes apart, and
  its text \<open>str(e)\<close>.
\<close>

datatype exn = RequestException string | OtherException string

fun str :: "exn \<Rightarrow> string" where
  "str (RequestException m) = m"
| "str (OtherException m) = m"

text \<open>
  What \<open>requests.get\<close> does: it raises, or it returns a response with a status code,
  the text \<open>raise_for_status\<close> would put in its HTTPError, and the outcome of
  \<open>response.json()\<close>.
\<close>

datatype 'p reply = Raises exn | Reply nat string "exn + 'p"

definition raise_for_status :: "nat \<Rightarrow> string \<Rightarrow> exn option" where
  "raise_for_status status_code http_error =
     (if 400 \<le> status_code \<and> status_code < 600 then Some (RequestException http_error)
      else None)"

text \<open>
  A field of a Twelve Data bar: a number (or its decimal text); a text that \<open>float\<close>
  reads as an infinity or as NaN (such as \<open>inf\<close>, \<open>-Infinity\<close>, \<open>nan\<close>); null; or a
  text that \<open>float\<close> rejects. A bar's \<open>datetime\<close> is the instant \<open>pd.to_datetime\<close>
  reads from it, or the text of the exception it raises.
\<close>

datatype cell =
    Numeric real
  | Plus_Infinity
  | Minus_Infinity
  | Not_A_Number
  | Missing
  | Garbled string

record td_row =
  td_datetime :: "string + int"
  td_open :: cell
  td_high :: cell
  td_low :: cell
  td_close :: cell

text \<open>The decoded body: a dict without \<open>"values"\<close> (and its \<open>message\<close>, if any), or the bars.\<close>

datatype td_payload = TD_No_Values "string option" | TD_Values "td_row list"

text \<open>
  The Yahoo chart: a body in which one of the lookups
  \<open>data["chart"]["result"][0]\<close>, \<open>["timestamp"]\<close>, \<open>["indicators"]["quote"][0]\<close> or the
  construction of the frame raises (with this text), or the bars, each with its epoch
  second and four numbers that may be null.
\<close>

record y_row =
  y_timestamp :: int
  y_open :: "real option"
  y_high :: "real option"
  y_low :: "real option"
  y_close :: "real option"

datatype yahoo_payload = Y_Malformed string | Y_Chart "y_row list"

text \<open>What \<open>requests.post\<close> to the bot does: the status code, the HTTPError text and \<open>response.text\<close>.\<close>

datatype post_reply = Post_Raises exn | Post_Reply nat string string

record env =
  twelve_reply :: "td_payload reply"
  yahoo_reply :: "yahoo_payload reply"
  telegram_reply :: post_reply
  TELEGRAM_BOT_TOKEN :: "string option"
  TELEGRAM_CHAT_ID :: "string option"
  now_iso :: string
  now_hour :: nat
  now_hm :: string
  now_epoch :: real
  now_epoch_sent :: real

text \<open>
  The clock is read several times in a run: \<open>now_iso\<close> at the start of
  \<open>analyze_market\<close>, \<open>now_hour\<close> at the hour filter, \<open>now_epoch\<close> at the cooldown check,
  \<open>now_hm\<close> in the alert text and \<open>now_epoch_sent\<close> when the alert time is recorded.
\<close>

section \<open>Text helpers\<close>

definition digit :: "nat \<Rightarrow> char" where
  "digit n = ''0123456789'' ! n"

function str_nat :: "nat \<Rightarrow> string" where
  "str_nat n = (if n < 10 then [digit n] else str_nat (n div 10) @ [digit (n mod 10)])"
  by pat_completeness auto
termination
  by (relation "measure id") auto

declare str_nat.simps [simp del]

definition str_int :: "int \<Rightarrow> string" where
  "str_int i = (if i < 0 then CHR ''-'' # str_nat (nat (- i)) else str_nat (nat i))"

text \<open>\<open>sep.join(xs)\<close>\<close>

fun join :: "string \<Rightarrow> string list \<Rightarrow> string" where
  "join sep [] = []"
| "join sep [x] = x"
| "join sep (x # y # ys) = x @ sep @ join sep (y # ys)"

definition quoted :: "string \<Rightarrow> string" where
  "quoted s = [CHR 0x27] @ s @ [CHR 0x27]"

section \<open>Data fetching\<close>

text \<open>A conversion of a whole column stops at the first element that raises.\<close>

fun collect :: "('e + 'a) list \<Rightarrow> 'e + 'a list" where
  "collect [] = Inr []"
| "collect (Inl e # xs) = Inl e"
| "collect (Inr v # xs) = (case collect xs of Inl e \<Rightarrow> Inl e | Inr vs \<Rightarrow> Inr (v # vs))"

text \<open>
  \<open>.astype(float)\<close> on one field: null becomes NaN, a text that \<open>float\<close> rejects raises
  ValueError.
\<close>

fun astype_float :: "cell \<Rightarrow> string + fval" where
  "astype_float (Numeric r) = Inr (Fin r)"
| "astype_float Plus_Infinity = Inr PInf"
| "astype_float Minus_Infinity = Inr NInf"
| "astype_float Not_A_Number = Inr NaN"
| "astype_float Missing = Inr NaN"
| "astype_float (Garbled s) = Inl (''could not convert string to float: '' @ quoted s)"

text \<open>
  The pandas steps of \<open>fetch_twelve_data\<close> (lines 74 to 84 of \<open>API/cron.py\<close>, the
  same text in \<open>alert_scheduler.py\<close>): the frame of the bars, indexed by their
  parsed \<open>datetime\<close>, sorted by it, with the four price columns renamed and converted
  to float. An empty list of bars gives a frame without a \<open>datetime\<close> column, a
  KeyError. \<open>sort_index\<close> sorts by timestamp; pandas' default algorithm promises no
  order among rows with equal timestamps, and the model's sort keeps them in the order
  of the payload, which is an assumption of the model and not a property of the code.
\<close>

definition twelve_frame :: "td_row list \<Rightarrow> string + dataframe" where
  "twelve_frame vals =
     (if vals = [] then Inl (quoted ''datetime'')
      else case collect (map td_datetime vals) of
        Inl e \<Rightarrow> Inl e
      | Inr stamps \<Rightarrow>
          let rows = sort_key fst (zip stamps vals) in
          (case collect (map (astype_float \<circ> td_open \<circ> snd) rows) of
             Inl e \<Rightarrow> Inl e
           | Inr opens \<Rightarrow>
          (case collect (map (astype_float \<circ> td_high \<circ> snd) rows) of
             Inl e \<Rightarrow> Inl e
           | Inr highs \<Rightarrow>
          (case collect (map (astype_float \<circ> td_low \<circ> snd) rows) of
             Inl e \<Rightarrow> Inl e
           | Inr lows \<Rightarrow>
          (case collect (map (astype_float \<circ> td_close \<circ> snd) rows) of
             Inl e \<Rightarrow> Inl e
           | Inr closes \<Rightarrow>
               Inr \<lparr>index = map fst rows,
                    cols = [''Open'' \<mapsto> opens, ''High'' \<mapsto> highs,
                            ''Low'' \<mapsto> lows, ''Close'' \<mapsto> closes]\<rparr>)))))"

text \<open>
  \<open>fetch_twelve_data()\<close> returns the pair \<open>(df, None)\<close> or \<open>(None, error)\<close>: here
  \<open>Inr df\<close> or \<open>Inl error\<close>. \<open>alert_scheduler.py\<close> calls \<open>raise_for_status\<close> and has
  an \<open>except\<close> clause of its own for request exceptions.
\<close>

definition api_error :: "string option \<Rightarrow> string" where
  "api_error m = ''API Error: '' @ (case m of None \<Rightarrow> ''Unknown'' | Some t \<Rightarrow> t)"

fun request_failed :: "exn \<Rightarrow> string" where
  "request_failed (RequestException m) = ''Request failed: '' @ m"
| "request_failed (OtherException m) = m"

fun fetch_twelve_data :: "variant \<Rightarrow> env \<Rightarrow> string + dataframe" where
  "fetch_twelve_data Cron env =
     (case twelve_reply env of
        Raises e \<Rightarrow> Inl (str e)
      | Reply status_code http_error body \<Rightarrow>
          (case body of
             Inl e \<Rightarrow> Inl (str e)
           | Inr (TD_No_Values m) \<Rightarrow> Inl (api_error m)
           | Inr (TD_Values vals) \<Rightarrow> twelve_frame vals))"
| "fetch_twelve_data Scheduler env =
     (case twelve_reply env of
        Raises e \<Rightarrow> Inl (request_failed e)
      | Reply status_code http_error body \<Rightarrow>
          (case raise_for_status status_code http_error of
             Some e \<Rightarrow> Inl (request_failed e)
           | None \<Rightarrow>
          (case body of
             Inl e \<Rightarrow> Inl (request_failed e)
           | Inr (TD_No_Values m) \<Rightarrow> Inl (api_error m)
           | Inr (TD_Values vals) \<Rightarrow> twelve_frame vals)))"

text \<open>
  The pandas steps of \<open>fetch_yahoo_fallback\<close> (lines 104 to 111 of \<open>API/cron.py\<close>,
  the same text in \<open>alert_scheduler.py\<close>): the frame of the quotes, indexed by their
  timestamps, without the rows that hold a null (\<open>dropna\<close>), sorted by timestamp
  (with the same assumption on rows with equal timestamps).
\<close>

definition notna :: "y_row \<Rightarrow> bool" where
  "notna r = (y_open r \<noteq> None \<and> y_high r \<noteq> None \<and> y_low r \<noteq> None \<and> y_close r \<noteq> None)"

fun to_float :: "real option \<Rightarrow> fval" where
  "to_float None = NaN"
| "to_float (Some r) = Fin r"

definition yahoo_frame :: "y_row list \<Rightarrow> dataframe" where
  "yahoo_frame quotes =
     (let rows = sort_key y_timestamp (filter notna quotes)
      in \<lparr>index = map y_timestamp rows,
          cols = [''Open'' \<mapsto> map (to_float \<circ> y_open) rows,
                  ''High'' \<mapsto> map (to_float \<circ> y_high) rows,
                  ''Low'' \<mapsto> map (to_float \<circ> y_low) rows,
                  ''Close'' \<mapsto> map (to_float \<circ> y_close) rows]\<rparr>)"

fun fetch_yahoo_fallback :: "variant \<Rightarrow> env \<Rightarrow> string + dataframe" where
  "fetch_yahoo_fallback Cron env =
     (case yahoo_reply env of
        Raises e \<Rightarrow> Inl (str e)
      | Reply status_code http_error body \<Rightarrow>
          (case body of
             Inl e \<Rightarrow> Inl (str e)
           | Inr (Y_Malformed m) \<Rightarrow> Inl m
           | Inr (Y_Chart quotes) \<Rightarrow> Inr (yahoo_frame quotes)))"
| "fetch_yahoo_fallback Scheduler env =
     (case yahoo_reply env of
        Raises e \<Rightarrow> Inl (''Yahoo fetch failed: '' @ str e)
      | Reply status_code http_error body \<Rightarrow>
          (case raise_for_status status_code http_error of
             Some e \<Rightarrow> Inl (''Yahoo fetch failed: '' @ str e)
           | None \<Rightarrow>
          (case body of
             Inl e \<Rightarrow> Inl (''Yahoo fetch failed: '' @ str e)
           | Inr (Y_Malformed m) \<Rightarrow> Inl (''Yahoo fetch failed: '' @ m)
           | Inr (Y_Chart quotes) \<Rightarrow> Inr (yahoo_frame quotes))))"

section \<open>Market analysis\<close>

text \<open>The \<open>data\<close> dict of a successful analysis and the \<open>result\<close> dict.\<close>

record eval_data =
  price :: fval
  band_width :: fval
  threshold :: real
  is_squeeze :: bool
  current_hour :: nat
  is_valid_hour :: bool
  signal :: bool
  bars_analyzed :: nat

text \<open>
  \<open>data = None\<close> is the empty dict \<open>{}\<close>. The last four keys are absent (\<open>None\<close>)
  until \<open>do_GET\<close> of \<open>API/cron.py\<close> adds them.
\<close>

record report =
  timestamp :: string
  status :: string
  message :: string
  data :: "eval_data option"
  alert_sent :: "bool option"
  alert_error :: "string option"
  cooldown_active :: "bool option"
  cooldown_remaining :: "string option"

text \<open>
  What a run does that can be seen from outside, in order: the lines it prints (by
  their content, without the decoration), the calls of \<open>send_trade_alert\<close>, the POST
  to the bot, the HTTP status line and body written back, the exit of the process, and
  an exception nobody catches.
\<close>

record trade_message =
  msg_time :: string
  msg_price :: fval
  msg_band_width :: fval
  msg_stop_loss :: fval
  msg_take_profit :: fval

datatype event =
    Print_Triggered
  | Print_Fallback string
  | Print_Signal fval fval
  | Print_Alert_Sent
  | Print_Alert_Failed string
  | Print_Cooldown int
  | Print_No_Signal string
  | Print_Not_Configured
  | Print_Critical
  | Print_Execution_Failed string
  | Call_Send_Trade_Alert eval_data
  | Telegram_Post trade_message
  | Send_Response nat
  | Write_Body report
  | Sys_Exit nat
  | Uncaught

text \<open>\<open>df.iloc[-1][name]\<close>: the last row's value; \<open>None\<close> on an empty frame or a missing column.\<close>

definition iloc_last :: "heap \<Rightarrow> ref \<Rightarrow> string \<Rightarrow> fval option" where
  "iloc_last h df name = do {
     series \<leftarrow> getitem h df name;
     if series = [] then None else Some (last series)
   }"

text \<open>\<open>len(df)\<close>\<close>

definition len :: "dataframe \<Rightarrow> nat" where
  "len f = length (index f)"

text \<open>
  The fetch at the head of \<open>analyze_market\<close>: the primary provider, then the fallback;
  \<open>error\<close> is assigned anew by the second call. \<open>alert_scheduler.py\<close> prints the
  primary's error before it calls the fallback.
\<close>

definition fetch_data :: "variant \<Rightarrow> env \<Rightarrow> (string + dataframe) \<times> event list" where
  "fetch_data v env =
     (case fetch_twelve_data v env of
        Inr df \<Rightarrow> (Inr df, [])
      | Inl error \<Rightarrow>
          (fetch_yahoo_fallback v env,
           case v of Cron \<Rightarrow> [] | Scheduler \<Rightarrow> [Print_Fallback error]))"

text \<open>
  \<open>analyze_market()\<close>. The fetched frame is a fresh object that only the local \<open>df\<close>
  refers to. The result is \<open>None\<close> when an exception escapes.
\<close>

definition analyze_market :: "variant \<Rightarrow> env \<Rightarrow> (report \<times> event list) option" where
  "analyze_market v env =
     (let result = \<lparr>timestamp = now_iso env, status = ''error'', message = [], data = None,
                     alert_sent = None, alert_error = None, cooldown_active = None,
                     cooldown_remaining = None\<rparr>;
          (fetched, out) = fetch_data v env
      in case fetched of
           Inl error \<Rightarrow> Some (result\<lparr>message := ''Data fetch failed: '' @ error\<rparr>, out)
         | Inr frame \<Rightarrow>
             if len frame < BOLLINGER_PERIOD
             then Some (result\<lparr>message := ''Insufficient data: '' @ str_nat (len frame) @ '' bars''\<rparr>,
                        out)
             else do {
               (h, df) \<leftarrow> calculate_bollinger_bands [0 \<mapsto> frame] 0 BOLLINGER_PERIOD BOLLINGER_STD;
               current_price \<leftarrow> iloc_last h df ''Close'';
               bw \<leftarrow> iloc_last h df ''Band_Width'';
               f \<leftarrow> h df;
               let squeeze = flt bw (Fin (SQUEEZE_THRESHOLD v));
                   hour = now_hour env;
                   valid_hour = (hour \<notin> set EXCLUDED_HOURS)
               in Some (result\<lparr>status := ''success'',
                                data := Some \<lparr>price = current_price, band_width = bw,
                                              threshold = SQUEEZE_THRESHOLD v,
                                              is_squeeze = squeeze, current_hour = hour,
                                              is_valid_hour = valid_hour,
                                              signal = (squeeze \<and> valid_hour),
                                              bars_analyzed = len f\<rparr>\<rparr>,
                        out)
             })"

section \<open>Telegram notifications\<close>

text \<open>\<open>not TELEGRAM_BOT_TOKEN\<close>: an unset or empty variable.\<close>

definition falsy :: "string option \<Rightarrow> bool" where
  "falsy x = (x = None \<or> x = Some [])"

text \<open>
  \<open>send_telegram_message(message)\<close> returns \<open>(success, detail)\<close>. \<open>API/cron.py\<close> takes
  status 200 as success; \<open>alert_scheduler.py\<close> takes every status \<open>raise_for_status\<close>
  lets through.
\<close>

fun send_telegram_message ::
  "variant \<Rightarrow> env \<Rightarrow> trade_message \<Rightarrow> (bool \<times> string) \<times> event list" where
  "send_telegram_message Cron env m =
     (if falsy (TELEGRAM_BOT_TOKEN env) \<or> falsy (TELEGRAM_CHAT_ID env)
      then ((False, ''Telegram not configured''), [])
      else case telegram_reply env of
             Post_Raises e \<Rightarrow> ((False, str e), [Telegram_Post m])
           | Post_Reply status_code http_error body \<Rightarrow>
               (if status_code = 200 then ((True, ''Sent''), [Telegram_Post m])
                else ((False, body), [Telegram_Post m])))"
| "send_telegram_message Scheduler env m =
     (if falsy (TELEGRAM_BOT_TOKEN env) \<or> falsy (TELEGRAM_CHAT_ID env)
      then ((False, ''Telegram not configured''), [Print_Not_Configured])
      else case telegram_reply env of
             Post_Raises (RequestException t) \<Rightarrow>
               ((False, ''Telegram request failed: '' @ t @ '' - Response: N/A''),
                [Telegram_Post m])
           | Post_Raises (OtherException t) \<Rightarrow> ((False, t), [Telegram_Post m])
           | Post_Reply status_code http_error body \<Rightarrow>
               (case raise_for_status status_code http_error of
                  Some e \<Rightarrow>
                    ((False, ''Telegram request failed: '' @ str e @ '' - Response: '' @ body),
                     [Telegram_Post m])
                | None \<Rightarrow> ((True, ''Sent''), [Telegram_Post m])))"

text \<open>\<open>send_trade_alert(data)\<close>: the trade parameters, the message, the delivery.\<close>

definition send_trade_alert ::
  "variant \<Rightarrow> env \<Rightarrow> eval_data \<Rightarrow> (bool \<times> string) \<times> event list" where
  "send_trade_alert v env d =
     (let stop_loss = fadd (price d) (Fin 0.0004);
          take_profit = fsub (price d) (Fin 0.0020);
          m = \<lparr>msg_time = now_hm env, msg_price = price d, msg_band_width = band_width d,
               msg_stop_loss = stop_loss, msg_take_profit = take_profit\<rparr>;
          (r, out) = send_telegram_message v env m
      in (r, Call_Send_Trade_Alert d # out))"

section \<open>Entry points\<close>

text \<open>The list \<open>reasons\<close> of the branch without a signal.\<close>

definition reasons :: "eval_data \<Rightarrow> string list" where
  "reasons d = (if \<not> is_squeeze d then [''No squeeze''] else []) @
               (if \<not> is_valid_hour d then [''Invalid hour''] else [])"

text \<open>\<open>int((ALERT_COOLDOWN - time_since) / 60)\<close>: \<open>int\<close> truncates towards zero.\<close>

definition remaining_minutes :: "real \<Rightarrow> int" where
  "remaining_minutes time_since =
     (let q = (ALERT_COOLDOWN - time_since) / 60 in if 0 \<le> q then \<lfloor>q\<rfloor> else \<lceil>q\<rceil>)"

text \<open>
  The branch of \<open>do_GET\<close> and \<open>main_execution\<close> on \<open>data['signal']\<close>: the events, the
  \<open>result\<close> dict as it is afterwards, and the persistent state. Only \<open>API/cron.py\<close>
  writes the outcome into \<open>result\<close>.
\<close>

definition on_analysis ::
  "variant \<Rightarrow> env \<Rightarrow> report \<Rightarrow> eval_data \<Rightarrow> 's \<Rightarrow> event list \<times> report \<times> 's" where
  "on_analysis v env result d s =
     (if signal d then
        let last_alert = get_last_alert_time s;
            time_since = now_epoch env - last_alert
        in if time_since \<ge> ALERT_COOLDOWN then
             let ((success, msg), out) = send_trade_alert v env d
             in if success
                then (Print_Signal (price d) (band_width d) # out @ [Print_Alert_Sent],
                      (case v of Cron \<Rightarrow> result\<lparr>alert_sent := Some True\<rparr> | Scheduler \<Rightarrow> result),
                      set_last_alert_time (now_epoch_sent env) s)
                else (Print_Signal (price d) (band_width d) # out @ [Print_Alert_Failed msg],
                      (case v of Cron \<Rightarrow> result\<lparr>alert_error := Some msg\<rparr> | Scheduler \<Rightarrow> result),
                      s)
           else
             let remaining = remaining_minutes time_since
             in ([Print_Signal (price d) (band_width d), Print_Cooldown remaining],
                 (case v of
                    Cron \<Rightarrow> result\<lparr>cooldown_active := Some True,
                                   cooldown_remaining := Some (str_int remaining @ '' minutes'')\<rparr>
                  | Scheduler \<Rightarrow> result),
                 s)
      else ([Print_No_Signal (join '', '' (reasons d))], result, s))"

text \<open>
  \<open>json.dumps(result)\<close>. The encoder takes Python's own types only. The \<open>data\<close> dict of
  a successful analysis holds \<open>is_squeeze\<close>, the outcome of comparing a
  \<open>numpy.float64\<close> with a float: a \<open>numpy.bool_\<close>, which the encoder refuses with a
  TypeError (\<open>None\<close>). The result of a failed analysis holds strings and an empty
  dict.
\<close>

definition json_dumps :: "report \<Rightarrow> report option" where
  "json_dumps result = (case data result of None \<Rightarrow> Some result | Some d \<Rightarrow> None)"

text \<open>
  The end of \<open>do_GET\<close>: \<open>send_response\<close>, the headers, then
  \<open>self.wfile.write(json.dumps(result).encode())\<close>. When \<open>json.dumps\<close> raises, the
  status line has been sent, no body is written and nothing catches the exception.
\<close>

definition respond :: "nat \<Rightarrow> report \<Rightarrow> event list" where
  "respond code result =
     Send_Response code #
     (case json_dumps result of None \<Rightarrow> [Uncaught] | Some body \<Rightarrow> [Write_Body body])"

text \<open>\<open>handler.do_GET\<close> of \<open>API/cron.py\<close>.\<close>

definition do_GET :: "env \<Rightarrow> 's \<Rightarrow> event list \<times> 's" where
  "do_GET env s =
     (case analyze_market Cron env of
        None \<Rightarrow> ([Print_Triggered, Uncaught], s)
      | Some (result, out) \<Rightarrow>
          if status result = ''error''
          then (Print_Triggered # out @ respond 500 result, s)
          else (case data result of
                  None \<Rightarrow> (Print_Triggered # out @ [Uncaught], s)
                | Some d \<Rightarrow>
                    let (evs, result', s') = on_analysis Cron env result d s
                    in (Print_Triggered # out @ evs @ respond 200 result', s')))"

text \<open>\<open>main_execution()\<close> of \<open>alert_scheduler.py\<close>.\<close>

definition main_execution :: "env \<Rightarrow> 's \<Rightarrow> event list \<times> 's" where
  "main_execution env s =
     (if falsy (TELEGRAM_BOT_TOKEN env) \<or> falsy (TELEGRAM_CHAT_ID env)
      then ([Print_Critical, Sys_Exit 1], s)
      else case analyze_market Scheduler env of
        None \<Rightarrow> ([Print_Triggered, Uncaught], s)
      | Some (result, out) \<Rightarrow>
          if status result = ''error''
          then (Print_Triggered # out @ [Print_Execution_Failed (message result)], s)
          else (case data result of
                  None \<Rightarrow> (Print_Triggered # out @ [Uncaught], s)
                | Some d \<Rightarrow>
                    let (evs, result', s') = on_analysis Scheduler env result d s
                    in (Print_Triggered # out @ evs, s')))"

text \<open>A run of a variant, and whether a trace holds a dispatch attempt.\<close>

fun run :: "variant \<Rightarrow> env \<Rightarrow> 's \<Rightarrow> event list \<times> 's" where
  "run Cron env s = do_GET env s"
| "run Scheduler env s = main_execution env s"

fun is_dispatch :: "event \<Rightarrow> bool" where
  "is_dispatch (Call_Send_Trade_Alert d) = True"
| "is_dispatch (Telegram_Post m) = True"
| "is_dispatch e = False"

definition dispatch_attempted :: "event list \<Rightarrow> bool" where
  "dispatch_attempted evs = list_ex is_dispatch evs"

section \<open>Notions used in the statements\<close>

text \<open>
  The frame \<open>calculate_bollinger_bands\<close> leaves behind, in closed form: the frame it
  was given with the five indicator columns assigned.
\<close>

definition bands :: "dataframe \<Rightarrow> nat \<Rightarrow> fval \<Rightarrow> fval list \<Rightarrow> dataframe" where
  "bands f period std close =
     (let sma = rolling_mean period close; sd = rolling_std period close;
          upper = map2 fadd sma (map (fmul std) sd);
          lower = map2 fsub sma (map (fmul std) sd)
      in f\<lparr>cols := (cols f)(''SMA'' \<mapsto> sma, ''STD'' \<mapsto> sd, ''Upper_Band'' \<mapsto> upper,
            ''Lower_Band'' \<mapsto> lower, ''Band_Width'' \<mapsto> map2 fdiv (map2 fsub upper lower) sma)\<rparr>)"

text \<open>The value of a column at a row, if the frame has both.\<close>

definition cell_at :: "dataframe \<Rightarrow> string \<Rightarrow> nat \<Rightarrow> fval option" where
  "cell_at f name i =
     (case cols f name of None \<Rightarrow> None
      | Some series \<Rightarrow> if i < length series then Some (series ! i) else None)"

text \<open>The arithmetic mean and the sample standard deviation of a list of reals.\<close>

definition mean :: "real list \<Rightarrow> real" where
  "mean w = sum_list w / real (length w)"

definition sample_std :: "real list \<Rightarrow> fval" where
  "sample_std w =
     (if length w \<le> 1 then NaN
      else Fin (sqrt (sum_list (map (\<lambda>x. (x - mean w)\<^sup>2) w) / real (length w - 1))))"

text \<open>The names of the five indicator columns.\<close>

definition band_columns :: "string list" where
  "band_columns = [''SMA'', ''STD'', ''Upper_Band'', ''Lower_Band'', ''Band_Width'']"

text \<open>The four price columns of a fetched frame.\<close>

definition price_columns :: "string list" where
  "price_columns = [''Open'', ''High'', ''Low'', ''Close'']"

text \<open>A frame of two bars, for the examples.\<close>

definition bars2 :: dataframe where
  "bars2 = \<lparr>index = [0, 60],
            cols = [''Open'' \<mapsto> [Fin 1, Fin 2], ''High'' \<mapsto> [Fin 3, Fin 4],
                    ''Low'' \<mapsto> [Fin 1, Fin 1], ''Close'' \<mapsto> [Fin 2, Fin 4]]\<rparr>"

text \<open>
  The band width of row \<open>i\<close> in closed form, and the one \<open>analyze_market\<close> reads from
  the last row.
\<close>

definition band_width_at :: "nat \<Rightarrow> fval \<Rightarrow> fval list \<Rightarrow> nat \<Rightarrow> fval" where
  "band_width_at period std close i =
     (let m = roll_mean period close i; s = roll_std period close i
      in fdiv (fsub (fadd m (fmul std s)) (fsub m (fmul std s))) m)"

definition latest_band_width :: "fval list \<Rightarrow> fval" where
  "latest_band_width close =
     band_width_at BOLLINGER_PERIOD BOLLINGER_STD close (length close - 1)"

text \<open>The \<open>result\<close> dict of a failed and of a successful analysis, in closed form.\<close>

definition error_report :: "env \<Rightarrow> string \<Rightarrow> report" where
  "error_report env msg =
     \<lparr>timestamp = now_iso env, status = ''error'', message = msg, data = None,
      alert_sent = None, alert_error = None, cooldown_active = None,
      cooldown_remaining = None\<rparr>"

definition evaluation :: "variant \<Rightarrow> env \<Rightarrow> fval list \<Rightarrow> eval_data" where
  "evaluation v env close =
     \<lparr>price = last close, band_width = latest_band_width close,
      threshold = SQUEEZE_THRESHOLD v,
      is_squeeze = flt (latest_band_width close) (Fin (SQUEEZE_THRESHOLD v)),
      current_hour = now_hour env,
      is_valid_hour = (now_hour env \<notin> set EXCLUDED_HOURS),
      signal = (flt (latest_band_width close) (Fin (SQUEEZE_THRESHOLD v)) \<and>
                now_hour env \<notin> set EXCLUDED_HOURS),
      bars_analyzed = length close\<rparr>"

definition success_report :: "env \<Rightarrow> eval_data \<Rightarrow> report" where
  "success_report env d =
     \<lparr>timestamp = now_iso env, status = ''success'', message = [], data = Some d,
      alert_sent = None, alert_error = None, cooldown_active = None,
      cooldown_remaining = None\<rparr>"

text \<open>A fetched frame has a \<open>Close\<close> column with one value per row.\<close>

definition wf_frame :: "dataframe \<Rightarrow> bool" where
  "wf_frame f = (case cols f ''Close'' of None \<Rightarrow> False | Some close \<Rightarrow> length close = len f)"

text \<open>
  Example inputs: Twelve Data bars whose four prices are the same number, the frame
  they give, twenty timestamps a minute apart, and an environment in which the primary
  provider returns twenty bars at 1.1, the bot accepts the message, the credentials are
  set and the clock reads 03:00 UTC.
\<close>

definition bar :: "int \<Rightarrow> real \<Rightarrow> td_row" where
  "bar t c = \<lparr>td_datetime = Inr t, td_open = Numeric c, td_high = Numeric c,
              td_low = Numeric c, td_close = Numeric c\<rparr>"

definition bars_of :: "(int \<times> real) list \<Rightarrow> td_row list" where
  "bars_of tcs = map (\<lambda>(t, c). bar t c) tcs"

definition flat_frame :: "(int \<times> real) list \<Rightarrow> dataframe" where
  "flat_frame tcs =
     \<lparr>index = map fst tcs,
      cols = [''Open'' \<mapsto> map (Fin \<circ> snd) tcs, ''High'' \<mapsto> map (Fin \<circ> snd) tcs,
              ''Low'' \<mapsto> map (Fin \<circ> snd) tcs, ''Close'' \<mapsto> map (Fin \<circ> snd) tcs]\<rparr>"

definition minutes20 :: "int list" where
  "minutes20 = [0, 60, 120, 180, 240, 300, 360, 420, 480, 540,
                600, 660, 720, 780, 840, 900, 960, 1020, 1080, 1140]"

definition base_env :: env where
  "base_env =
     \<lparr>twelve_reply = Reply 200 [] (Inr (TD_Values (bars_of (zip minutes20 (replicate 20 1.1))))),
      yahoo_reply = Raises (RequestException ''unreachable''),
      telegram_reply = Post_Reply 200 [] ''ok'',
      TELEGRAM_BOT_TOKEN = Some ''token'',
      TELEGRAM_CHAT_ID = Some ''chat'',
      now_iso = ''2026-01-01T03:00:00+00:00'',
      now_hour = 3,
      now_hm = ''03:00 GMT'',
      now_epoch = 1767236400,
      now_epoch_sent = 1767236401\<rparr>"

text \<open>Both Telegram credentials are set.\<close>

definition configured :: "env \<Rightarrow> bool" where
  "configured env = (\<not> falsy (TELEGRAM_BOT_TOKEN env) \<and> \<not> falsy (TELEGRAM_CHAT_ID env))"

text \<open>
  More example environments: one in which both providers fail, one in which the primary
  provider returns two bars, and one whose clock reads an excluded hour.
\<close>

definition both_fail_env :: env where
  "both_fail_env =
     base_env\<lparr>twelve_reply := Reply 200 [] (Inr (TD_No_Values (Some ''limit reached''))),
               yahoo_reply := Raises (RequestException ''connection refused'')\<rparr>"

definition short_env :: env where
  "short_env = base_env\<lparr>twelve_reply := Reply 200 [] (Inr (TD_Values (bars_of [(0, 1.1), (60, 1.2)])))\<rparr>"

definition excluded_hour_env :: env where
  "excluded_hour_env = base_env\<lparr>now_hour := 8\<rparr>"

text \<open>A bar all of whose four prices are numbers, and a float that is a number.\<close>

fun is_numeric :: "cell \<Rightarrow> bool" where
  "is_numeric (Numeric r) = True"
| "is_numeric c = False"

definition numeric_row :: "td_row \<Rightarrow> bool" where
  "numeric_row r =
     (is_numeric (td_open r) \<and> is_numeric (td_high r) \<and> is_numeric (td_low r) \<and>
      is_numeric (td_close r))"

fun is_finite :: "fval \<Rightarrow> bool" where
  "is_finite (Fin r) = True"
| "is_finite x = False"

text \<open>
  Example environments: a primary payload in which two bars share a timestamp, a fallback
  payload with a null close out of order, and a primary payload of twenty closes whose
  band width is 0.001, between the thresholds of the two files.
\<close>

definition dup_env :: env where
  "dup_env = base_env\<lparr>twelve_reply :=
     Reply 200 [] (Inr (TD_Values (bars_of [(0, 1.1), (60, 1.2), (60, 1.3)])))\<rparr>"

definition quote_row :: "int \<Rightarrow> real option \<Rightarrow> y_row" where
  "quote_row t c = \<lparr>y_timestamp = t, y_open = Some 1.1, y_high = Some 1.2, y_low = Some 1.0,
                    y_close = c\<rparr>"

definition yahoo_env :: env where
  "yahoo_env = base_env\<lparr>yahoo_reply :=
     Reply 200 [] (Inr (Y_Chart [quote_row 120 (Some 1.15), quote_row 60 None,
                                 quote_row 0 (Some 1.1)]))\<rparr>"

definition gap_closes :: "real list" where
  "gap_closes = [1.00075, 0.99925, 1.000125, 0.999875, 1.000125, 0.999875,
                 1, 1, 1, 1, 1, 1, 1, 1, 1, 1, 1, 1, 1, 1]"

definition gap_env :: env where
  "gap_env = base_env\<lparr>twelve_reply :=
     Reply 200 [] (Inr (TD_Values (bars_of (zip minutes20 gap_closes))))\<rparr>"

text \<open>An environment in which the primary provider returns twenty bars at 0.\<close>

definition zero_env :: env where
  "zero_env = base_env\<lparr>twelve_reply :=
     Reply 200 [] (Inr (TD_Values (bars_of (zip minutes20 (replicate 20 0)))))\<rparr>"

text \<open>A reply that \<open>raise_for_status\<close> lets through.\<close>

definition status_ok :: "'p reply \<Rightarrow> bool" where
  "status_ok r =
     (case r of Raises e \<Rightarrow> True
      | Reply status_code http_error body \<Rightarrow> \<not> (400 \<le> status_code \<and> status_code < 600))"

section \<open>The cooldown gate\<close>

text \<open>
  Claim C1 as stated: after \<open>set_last_alert_time(t)\<close> the check at
  \<open>t + ALERT_COOLDOWN - 1\<close> is false. The store is a placeholder, so at
  \<open>t = 1700000000\<close> the check one second before the cooldown has run out is true.
\<close>

theorem C1_cooldown_not_suppressed:
  "should_dispatch (1700000000 + ALERT_COOLDOWN - 1) (set_last_alert_time 1700000000 ())"
  by (simp add: should_dispatch_def get_last_alert_time_def ALERT_COOLDOWN_def)

text \<open>
  Claim C1, amended: \<open>set_last_alert_time\<close> stores nothing and \<open>get_last_alert_time\<close>
  still returns 0 afterwards, so the check at time \<open>now\<close> is true exactly when
  \<open>now >= ALERT_COOLDOWN\<close>, whatever \<open>t\<close> was recorded. Hence the check at
  \<open>t + ALERT_COOLDOWN\<close> is true for every \<open>t >= 0\<close>, and the check at
  \<open>t + ALERT_COOLDOWN - 1\<close> is true as well for every \<open>t >= 1\<close>.
\<close>

theorem C1_cooldown_placeholder:
  "get_last_alert_time (set_last_alert_time t s) = 0 \<and>
   should_dispatch now (set_last_alert_time t s) = (ALERT_COOLDOWN \<le> now) \<and>
   (0 \<le> t \<longrightarrow> should_dispatch (t + ALERT_COOLDOWN) (set_last_alert_time t s)) \<and>
   (1 \<le> t \<longrightarrow> should_dispatch (t + ALERT_COOLDOWN - 1) (set_last_alert_time t s))"
  by (simp add: should_dispatch_def get_last_alert_time_def)

theorem C1_cooldown_placeholder_witness:
  "(0::real) \<le> 600 \<and> (1::real) \<le> 600 \<and>
   get_last_alert_time (set_last_alert_time 600 ()) = 0 \<and>
   should_dispatch 1200 (set_last_alert_time 600 ()) = (ALERT_COOLDOWN \<le> 1200) \<and>
   should_dispatch (600 + ALERT_COOLDOWN) (set_last_alert_time 600 ()) \<and>
   should_dispatch (600 + ALERT_COOLDOWN - 1) (set_last_alert_time 600 ())"
  using C1_cooldown_placeholder [of 600 "()" 1200] by simp

section \<open>The indicator columns\<close>

lemma calculate_bollinger_bands_eq:
  assumes "h df = Some f" and "cols f ''Close'' = Some close"
  shows "calculate_bollinger_bands h df period std = Some (h(df \<mapsto> bands f period std close), df)"
  using assms
  by (simp add: calculate_bollinger_bands_def getitem_def setitem_def bands_def Let_def)

lemma observations_Fin [simp]: "observations (map Fin xs) = xs"
  by (induction xs) auto

lemma window_map: "window period i (map g xs) = map g (window period i xs)"
  by (simp add: window_def take_map drop_map)

lemma length_window: "length (window period i xs) = min (Suc i) (length xs) - (Suc i - period)"
  by (simp add: window_def)

lemma length_window_full:
  assumes "0 < period" "period - 1 \<le> i" "i < length xs"
  shows "length (window period i xs) = period"
  using assms by (simp add: length_window)

lemma roll_mean_Fin:
  assumes "0 < period" "period - 1 \<le> i" "i < length xs"
  shows "roll_mean period (map Fin xs) i = Fin (mean (window period i xs))"
proof -
  have "length (window period i xs) = period"
    by (rule length_window_full [OF assms])
  moreover from this assms(1) have "window period i xs \<noteq> []"
    by auto
  ultimately show ?thesis
    by (simp add: roll_mean_def window_map Let_def mean_def)
qed

lemma roll_std_Fin:
  assumes "0 < period" "period - 1 \<le> i" "i < length xs"
  shows "roll_std period (map Fin xs) i = sample_std (window period i xs)"
proof -
  have "length (window period i xs) = period"
    by (rule length_window_full [OF assms])
  then show ?thesis
    by (simp add: roll_std_def window_map Let_def mean_def sample_std_def)
qed

lemma length_observations: "length (observations xs) \<le> length xs"
  by (induction xs rule: observations.induct) auto

lemma roll_mean_early:
  assumes "i < period - 1"
  shows "roll_mean period xs i = NaN"
proof -
  have "length (observations (window period i xs)) \<le> length (window period i xs)"
    by (rule length_observations)
  also have "\<dots> < period" using assms by (simp add: length_window)
  finally show ?thesis by (simp add: roll_mean_def Let_def)
qed

lemma roll_std_early:
  assumes "i < period - 1"
  shows "roll_std period xs i = NaN"
proof -
  have "length (observations (window period i xs)) \<le> length (window period i xs)"
    by (rule length_observations)
  also have "\<dots> < period" using assms by (simp add: length_window)
  finally show ?thesis by (simp add: roll_std_def Let_def)
qed

lemma cell_at_bands:
  assumes "i < length close"
  shows "cell_at (bands f period std close) ''SMA'' i = Some (roll_mean period close i)"
    and "cell_at (bands f period std close) ''STD'' i = Some (roll_std period close i)"
    and "cell_at (bands f period std close) ''Upper_Band'' i =
           Some (fadd (roll_mean period close i) (fmul std (roll_std period close i)))"
    and "cell_at (bands f period std close) ''Lower_Band'' i =
           Some (fsub (roll_mean period close i) (fmul std (roll_std period close i)))"
    and "cell_at (bands f period std close) ''Band_Width'' i =
           Some (fdiv (fsub (fadd (roll_mean period close i) (fmul std (roll_std period close i)))
                            (fsub (roll_mean period close i) (fmul std (roll_std period close i))))
                      (roll_mean period close i))"
  using assms
  by (simp_all add: cell_at_def bands_def Let_def rolling_mean_def rolling_std_def)

lemma window_nth: "window period i xs = map ((!) xs) [Suc i - period..<min (Suc i) (length xs)]"
proof (rule nth_equalityI)
  show "length (window period i xs) = length (map ((!) xs) [Suc i - period..<min (Suc i) (length xs)])"
    by (simp add: window_def min.commute)
next
  fix k assume "k < length (window period i xs)"
  then have k: "k < min (Suc i) (length xs) - (Suc i - period)"
    by (simp add: window_def min.commute)
  then have "Suc i - period + k < min (Suc i) (length xs)"
    by arith
  then have "[Suc i - period..<min (Suc i) (length xs)] ! k = Suc i - period + k"
    by (rule nth_upt)
  with k show "window period i xs ! k = map ((!) xs) [Suc i - period..<min (Suc i) (length xs)] ! k"
    by (simp add: window_def)
qed

lemma window_nth_full:
  assumes "i < length xs"
  shows "window period i xs = map ((!) xs) [Suc i - period..<Suc i]"
  using assms by (simp add: window_nth min_def)

text \<open>
  Claim C2: for a series of finite closes of length at least \<open>period\<close> and every row
  \<open>i >= period - 1\<close>, SMA is the arithmetic mean of the \<open>period\<close> closes ending at
  \<open>i\<close>, STD is their (sample) standard deviation, the upper and lower bands are SMA
  plus and minus \<open>std\<close> times STD, and the band width is their difference over SMA;
  the five columns hold NaN at the first \<open>period - 1\<close> rows.
\<close>

theorem C2_indicator_values:
  assumes "h df = Some f" and "cols f ''Close'' = Some (map Fin closes)"
    and "0 < period" and "period \<le> length closes"
  shows "\<exists>h' f'. calculate_bollinger_bands h df period std = Some (h', df) \<and> h' df = Some f' \<and>
     (\<forall>i. period - 1 \<le> i \<and> i < length closes \<longrightarrow>
        (let w = map ((!) closes) [Suc i - period..<Suc i];
             ma = Fin (mean w); sd = sample_std w;
             upper = fadd ma (fmul std sd); lower = fsub ma (fmul std sd)
         in length w = period \<and>
            cell_at f' ''SMA'' i = Some ma \<and>
            cell_at f' ''STD'' i = Some sd \<and>
            cell_at f' ''Upper_Band'' i = Some upper \<and>
            cell_at f' ''Lower_Band'' i = Some lower \<and>
            cell_at f' ''Band_Width'' i = Some (fdiv (fsub upper lower) ma))) \<and>
     (\<forall>i name. i < period - 1 \<and> name \<in> set band_columns \<longrightarrow> cell_at f' name i = Some NaN)"
proof -
  let ?c = "map Fin closes"
  let ?f = "bands f period std ?c"
  have run: "calculate_bollinger_bands h df period std = Some (h(df \<mapsto> ?f), df)"
    using assms(1,2) by (simp add: calculate_bollinger_bands_eq)
  have late: "let w = map ((!) closes) [Suc i - period..<Suc i];
             ma = Fin (mean w); sd = sample_std w;
             upper = fadd ma (fmul std sd); lower = fsub ma (fmul std sd)
         in length w = period \<and>
            cell_at ?f ''SMA'' i = Some ma \<and>
            cell_at ?f ''STD'' i = Some sd \<and>
            cell_at ?f ''Upper_Band'' i = Some upper \<and>
            cell_at ?f ''Lower_Band'' i = Some lower \<and>
            cell_at ?f ''Band_Width'' i = Some (fdiv (fsub upper lower) ma)"
    if i: "period - 1 \<le> i" "i < length closes" for i
  proof -
    have w: "window period i closes = map ((!) closes) [Suc i - period..<Suc i]"
      by (rule window_nth_full [OF i(2)])
    have len: "length (window period i closes) = period"
      by (rule length_window_full [OF assms(3) i])
    have m: "roll_mean period ?c i = Fin (mean (window period i closes))"
      by (rule roll_mean_Fin [OF assms(3) i])
    have s: "roll_std period ?c i = sample_std (window period i closes)"
      by (rule roll_std_Fin [OF assms(3) i])
    have il: "i < length ?c" using i(2) by simp
    show ?thesis
      unfolding Let_def w [symmetric]
      by (simp only: cell_at_bands [OF il] m s len)
  qed
  have early: "cell_at ?f name i = Some NaN"
    if i: "i < period - 1" "name \<in> set band_columns" for i name
  proof -
    have il: "i < length ?c" using i(1) assms(4) by simp
    have m: "roll_mean period ?c i = NaN" by (rule roll_mean_early [OF i(1)])
    have s: "roll_std period ?c i = NaN" by (rule roll_std_early [OF i(1)])
    from i(2) show ?thesis
      by (auto simp add: band_columns_def cell_at_bands [OF il] m s fsub_def)
  qed
  from run late early show ?thesis by auto
qed

theorem C2_indicator_values_witness:
  "[0 \<mapsto> \<lparr>index = [0, 60, 120], cols = [''Close'' \<mapsto> map Fin [1, 3, 5]]\<rparr>] (0::nat) =
     Some \<lparr>index = [0, 60, 120], cols = [''Close'' \<mapsto> map Fin [1, 3, 5]]\<rparr> \<and>
   cols \<lparr>index = [0, 60, 120], cols = [''Close'' \<mapsto> map Fin [1, 3, 5]]\<rparr> ''Close'' =
     Some (map Fin [1, 3, 5]) \<and>
   (0::nat) < 2 \<and> (2::nat) \<le> length [1::real, 3, 5] \<and>
   (\<exists>h' f'. calculate_bollinger_bands
        [0 \<mapsto> \<lparr>index = [0, 60, 120], cols = [''Close'' \<mapsto> map Fin [1, 3, 5]]\<rparr>] 0 2 (Fin 2) =
        Some (h', 0) \<and> h' 0 = Some f' \<and>
      cell_at f' ''SMA'' 2 = Some (Fin 4) \<and>
      cell_at f' ''STD'' 2 = Some (Fin (sqrt 2)) \<and>
      cell_at f' ''Upper_Band'' 2 = Some (Fin (4 + 2 * sqrt 2)) \<and>
      cell_at f' ''Lower_Band'' 2 = Some (Fin (4 - 2 * sqrt 2)) \<and>
      cell_at f' ''Band_Width'' 2 = Some (Fin (sqrt 2))  \<and>
      cell_at f' ''Band_Width'' 0 = Some NaN)"
proof -
  let ?F = "\<lparr>index = [0, 60, 120], cols = [''Close'' \<mapsto> map Fin [1, 3, 5]]\<rparr>"
  have hyps: "[0 \<mapsto> ?F] (0::nat) = Some ?F" "cols ?F ''Close'' = Some (map Fin [1, 3, 5])"
    "(0::nat) < 2" "(2::nat) \<le> length [1::real, 3, 5]"
    by simp_all
  from hyps C2_indicator_values [where h = "[0 \<mapsto> ?F]" and df = 0 and f = ?F
      and closes = "[1, 3, 5]" and period = 2 and std = "Fin 2"]
  obtain h' f' where run: "calculate_bollinger_bands [0 \<mapsto> ?F] 0 2 (Fin 2) = Some (h', 0)"
    and f': "h' 0 = Some f'"
    and late: "\<forall>i. 2 - 1 \<le> i \<and> i < length [1::real, 3, 5] \<longrightarrow>
        (let w = map ((!) [1::real, 3, 5]) [Suc i - 2..<Suc i];
             ma = Fin (mean w); sd = sample_std w;
             upper = fadd ma (fmul (Fin 2) sd); lower = fsub ma (fmul (Fin 2) sd)
         in length w = 2 \<and>
            cell_at f' ''SMA'' i = Some ma \<and>
            cell_at f' ''STD'' i = Some sd \<and>
            cell_at f' ''Upper_Band'' i = Some upper \<and>
            cell_at f' ''Lower_Band'' i = Some lower \<and>
            cell_at f' ''Band_Width'' i = Some (fdiv (fsub upper lower) ma))"
    and early: "\<forall>i name. i < 2 - 1 \<and> name \<in> set band_columns \<longrightarrow> cell_at f' name i = Some NaN"
    by blast
  have w: "map ((!) [1::real, 3, 5]) [Suc 2 - 2..<Suc 2] = [3, 5]"
    by (simp add: upt_rec)
  have sd: "sample_std [3, 5] = Fin (sqrt 2)"
    by (simp add: sample_std_def mean_def power2_eq_square)
  have "(let w = map ((!) [1::real, 3, 5]) [Suc 2 - 2..<Suc 2];
             ma = Fin (mean w); sd = sample_std w;
             upper = fadd ma (fmul (Fin 2) sd); lower = fsub ma (fmul (Fin 2) sd)
         in length w = 2 \<and>
            cell_at f' ''SMA'' 2 = Some ma \<and>
            cell_at f' ''STD'' 2 = Some sd \<and>
            cell_at f' ''Upper_Band'' 2 = Some upper \<and>
            cell_at f' ''Lower_Band'' 2 = Some lower \<and>
            cell_at f' ''Band_Width'' 2 = Some (fdiv (fsub upper lower) ma))"
    by (rule mp [OF spec [OF late, of 2]]) simp
  then have vals: "cell_at f' ''SMA'' 2 = Some (Fin 4)"
      "cell_at f' ''STD'' 2 = Some (Fin (sqrt 2))"
      "cell_at f' ''Upper_Band'' 2 = Some (Fin (4 + 2 * sqrt 2))"
      "cell_at f' ''Lower_Band'' 2 = Some (Fin (4 - 2 * sqrt 2))"
      "cell_at f' ''Band_Width'' 2 = Some (Fin (sqrt 2))"
    unfolding w Let_def sd by (simp_all add: mean_def fsub_def)
  from early have "cell_at f' ''Band_Width'' 0 = Some NaN"
    by (simp add: band_columns_def)
  with hyps run f' vals show ?thesis by blast
qed

lemma bands_frame:
  "index (bands f period std close) = index f"
  "name \<notin> set band_columns \<Longrightarrow> cols (bands f period std close) name = cols f name"
  "dom (cols (bands f period std close)) = dom (cols f) \<union> set band_columns"
  by (auto simp add: bands_def Let_def band_columns_def)

lemma bands_lengths:
  assumes "name \<in> set band_columns"
  shows "\<exists>series. cols (bands f period std close) name = Some series \<and> length series = length close"
  using assms
  by (auto simp add: bands_def Let_def band_columns_def rolling_mean_def rolling_std_def)

section \<open>The frame effect of the indicator computation\<close>

text \<open>
  Claim C10: \<open>calculate_bollinger_bands\<close> returns the reference it was given; the object
  behind it has the five indicator columns added (each as long as \<open>Close\<close>), its row
  index and every other column, the four price columns among them, are unchanged; no
  object is created and no other object is changed.
\<close>

theorem C10_in_place:
  assumes "h df = Some f" and "cols f ''Close'' = Some close"
  shows "\<exists>h' f'. calculate_bollinger_bands h df period std = Some (h', df) \<and>
     h' df = Some f' \<and> dom h' = dom h \<and>
     (\<forall>r. r \<noteq> df \<longrightarrow> h' r = h r) \<and>
     index f' = index f \<and>
     (\<forall>name. name \<in> set price_columns \<longrightarrow> cols f' name = cols f name) \<and>
     (\<forall>name. name \<notin> set band_columns \<longrightarrow> cols f' name = cols f name) \<and>
     dom (cols f') = dom (cols f) \<union> set band_columns \<and>
     (\<forall>name. name \<in> set band_columns \<longrightarrow>
        (\<exists>series. cols f' name = Some series \<and> length series = length close))"
proof -
  let ?f = "bands f period std close"
  have run: "calculate_bollinger_bands h df period std = Some (h(df \<mapsto> ?f), df)"
    using assms by (simp add: calculate_bollinger_bands_eq)
  have dom: "dom (h(df \<mapsto> ?f)) = dom h"
    using assms(1) by auto
  have price: "cols ?f name = cols f name" if "name \<in> set price_columns" for name
  proof -
    from that have "name \<notin> set band_columns"
      by (auto simp add: price_columns_def band_columns_def)
    then show ?thesis by (rule bands_frame(2))
  qed
  from run dom price bands_lengths [where f = f and period = period and std = std and close = close]
  show ?thesis
    by (intro exI [of _ "h(df \<mapsto> ?f)"] exI [of _ ?f]) (simp add: bands_frame)
qed

theorem C10_in_place_witness:
  "[7 \<mapsto> bars2, 3 \<mapsto> \<lparr>index = [], cols = Map.empty\<rparr>] (7::nat) = Some bars2 \<and>
   cols bars2 ''Close'' = Some [Fin 2, Fin 4] \<and>
   ''Open'' \<in> set price_columns \<and> ''Close'' \<in> set price_columns \<and>
   ''SMA'' \<in> set band_columns \<and> (3::nat) \<noteq> 7 \<and> cols bars2 ''SMA'' = None \<and>
   (\<exists>h' f'. calculate_bollinger_bands
        [7 \<mapsto> bars2, 3 \<mapsto> \<lparr>index = [], cols = Map.empty\<rparr>] 7 2 (Fin 2) = Some (h', 7) \<and>
      h' 7 = Some f' \<and>
      h' 3 = Some \<lparr>index = [], cols = Map.empty\<rparr> \<and>
      index f' = [0, 60] \<and>
      cols f' ''Open'' = Some [Fin 1, Fin 2] \<and>
      cols f' ''Close'' = Some [Fin 2, Fin 4] \<and>
      (\<exists>series. cols f' ''SMA'' = Some series \<and> length series = 2))"
proof -
  let ?h = "[7 \<mapsto> bars2, 3 \<mapsto> \<lparr>index = [], cols = Map.empty\<rparr>] :: heap"
  have hyps: "?h 7 = Some bars2" "cols bars2 ''Close'' = Some [Fin 2, Fin 4]"
    by (simp_all add: bars2_def)
  have names: "''Open'' \<in> set price_columns" "''Close'' \<in> set price_columns"
    "''SMA'' \<in> set band_columns" "(3::nat) \<noteq> 7" "cols bars2 ''SMA'' = None"
    by (simp_all add: price_columns_def band_columns_def bars2_def)
  from hyps C10_in_place [where h = ?h and df = 7 and f = bars2 and close = "[Fin 2, Fin 4]"
      and period = 2 and std = "Fin 2"]
  obtain h' f' where run: "calculate_bollinger_bands ?h 7 2 (Fin 2) = Some (h', 7)"
    and f': "h' 7 = Some f'"
    and others: "\<forall>r. r \<noteq> 7 \<longrightarrow> h' r = ?h r"
    and idx: "index f' = index bars2"
    and price: "\<forall>name. name \<in> set price_columns \<longrightarrow> cols f' name = cols bars2 name"
    and new: "\<forall>name. name \<in> set band_columns \<longrightarrow>
        (\<exists>series. cols f' name = Some series \<and> length series = length [Fin 2, Fin 4])"
    by blast
  from others names(4) have "h' 3 = ?h 3" by blast
  then have a: "h' 3 = Some \<lparr>index = [], cols = Map.empty\<rparr>" by simp
  from idx have b: "index f' = [0, 60]" by (simp add: bars2_def)
  from price names(1) have "cols f' ''Open'' = cols bars2 ''Open''" by blast
  then have c: "cols f' ''Open'' = Some [Fin 1, Fin 2]" by (simp add: bars2_def)
  from price names(2) have "cols f' ''Close'' = cols bars2 ''Close''" by blast
  then have d: "cols f' ''Close'' = Some [Fin 2, Fin 4]" by (simp add: bars2_def)
  from new names(3) have e: "\<exists>series. cols f' ''SMA'' = Some series \<and> length series = 2"
    by fastforce
  from hyps names run f' a b c d e show ?thesis by blast
qed

section \<open>Fetched frames and the analysis\<close>

lemma collect_length: "collect xs = Inr vs \<Longrightarrow> length vs = length xs"
proof (induction xs arbitrary: vs)
  case Nil
  then show ?case by simp
next
  case (Cons x xs)
  then show ?case by (cases x) (auto split: sum.splits)
qed

lemma collect_map: "collect xs = Inr vs \<Longrightarrow> xs = map Inr vs"
proof (induction xs arbitrary: vs)
  case Nil
  then show ?case by simp
next
  case (Cons x xs)
  then show ?case by (cases x) (auto split: sum.splits)
qed

lemma twelve_frame_Inr:
  assumes "twelve_frame vals = Inr f"
  shows "\<exists>stamps closes. collect (map td_datetime vals) = Inr stamps \<and>
           index f = map fst (sort_key fst (zip stamps vals)) \<and>
           collect (map (astype_float \<circ> td_close \<circ> snd) (sort_key fst (zip stamps vals))) = Inr closes \<and>
           cols f ''Close'' = Some closes"
  using assms
  by (auto simp add: twelve_frame_def Let_def split: if_splits sum.splits)

lemma twelve_frame_wf:
  assumes "twelve_frame vals = Inr f"
  shows "wf_frame f"
proof -
  from twelve_frame_Inr [OF assms] obtain stamps closes
    where i: "index f = map fst (sort_key fst (zip stamps vals))"
      and c: "collect (map (astype_float \<circ> td_close \<circ> snd) (sort_key fst (zip stamps vals))) = Inr closes"
      and k: "cols f ''Close'' = Some closes"
    by blast
  from collect_length [OF c] i k show ?thesis
    by (simp add: wf_frame_def len_def)
qed

lemma yahoo_frame_wf: "wf_frame (yahoo_frame quotes)"
  by (simp add: wf_frame_def yahoo_frame_def Let_def len_def)

lemma fetch_twelve_data_Inr:
  assumes "fetch_twelve_data v env = Inr f"
  shows "\<exists>code err vals. twelve_reply env = Reply code err (Inr (TD_Values vals)) \<and>
           twelve_frame vals = Inr f"
  using assms
  by (cases v) (auto split: reply.splits sum.splits td_payload.splits option.splits)

lemma fetch_yahoo_fallback_Inr:
  assumes "fetch_yahoo_fallback v env = Inr f"
  shows "\<exists>code err quotes. yahoo_reply env = Reply code err (Inr (Y_Chart quotes)) \<and>
           f = yahoo_frame quotes"
  using assms
  by (cases v) (auto split: reply.splits sum.splits yahoo_payload.splits option.splits)

lemma fetch_data_cases:
  "fetch_data v env = (Inr f, out) \<longleftrightarrow>
     (fetch_twelve_data v env = Inr f \<and> out = []) \<or>
     (\<exists>e. fetch_twelve_data v env = Inl e \<and> fetch_yahoo_fallback v env = Inr f \<and>
          out = (case v of Cron \<Rightarrow> [] | Scheduler \<Rightarrow> [Print_Fallback e]))"
  by (auto simp add: fetch_data_def split: sum.splits)

lemma fetch_data_wf:
  assumes "fetch_data v env = (Inr f, out)"
  shows "wf_frame f"
  using assms fetch_twelve_data_Inr twelve_frame_wf fetch_yahoo_fallback_Inr yahoo_frame_wf
  unfolding fetch_data_cases by metis

lemma map2_upt:
  "map2 g (map a [0..<n]) (map b [0..<n]) = map (\<lambda>i. g (a i) (b i)) [0..<n]"
  by (rule nth_equalityI) simp_all

lemma bands_Band_Width:
  "cols (bands f period std close) ''Band_Width'' =
     Some (map (band_width_at period std close) [0..<length close])"
proof -
  have *: "map (fmul std) (map (roll_std period close) [0..<length close]) =
           map (\<lambda>i. fmul std (roll_std period close i)) [0..<length close]"
    by simp
  show ?thesis
    unfolding bands_def Let_def rolling_mean_def rolling_std_def * map2_upt
    by (simp add: band_width_at_def Let_def)
qed

lemma bands_Close:
  "cols f ''Close'' = Some close \<Longrightarrow> cols (bands f period std close) ''Close'' = Some close"
  by (simp add: bands_def Let_def)

lemma analyze_market_fetch_failed:
  assumes "fetch_data v env = (Inl e, out)"
  shows "analyze_market v env = Some (error_report env (''Data fetch failed: '' @ e), out)"
  using assms by (simp add: analyze_market_def error_report_def)

lemma analyze_market_insufficient:
  assumes "fetch_data v env = (Inr f, out)" and "len f < BOLLINGER_PERIOD"
  shows "analyze_market v env =
           Some (error_report env (''Insufficient data: '' @ str_nat (len f) @ '' bars''), out)"
  using assms by (simp add: analyze_market_def error_report_def)

lemma analyze_market_success:
  assumes "fetch_data v env = (Inr f, out)" and "\<not> len f < BOLLINGER_PERIOD"
    and "cols f ''Close'' = Some close" and "length close = len f"
  shows "analyze_market v env = Some (success_report env (evaluation v env close), out)"
proof -
  let ?b = "bands f BOLLINGER_PERIOD BOLLINGER_STD close"
  have ne: "close \<noteq> []"
    using assms(2,4) by (auto simp add: BOLLINGER_PERIOD_def)
  have run: "calculate_bollinger_bands [0 \<mapsto> f] 0 BOLLINGER_PERIOD BOLLINGER_STD =
               Some ([0 \<mapsto> ?b], 0)"
    using assms(3) by (simp add: calculate_bollinger_bands_eq)
  have p: "iloc_last [0 \<mapsto> ?b] 0 ''Close'' = Some (last close)"
    using ne assms(3) by (simp add: iloc_last_def getitem_def bands_Close)
  have "last (map (band_width_at BOLLINGER_PERIOD BOLLINGER_STD close) [0..<length close]) =
          latest_band_width close"
    using ne by (simp add: last_map latest_band_width_def)
  then have w: "iloc_last [0 \<mapsto> ?b] 0 ''Band_Width'' = Some (latest_band_width close)"
    using ne by (simp add: iloc_last_def getitem_def bands_Band_Width)
  have l: "len ?b = length close"
    using assms(4) by (simp add: len_def bands_frame)
  show ?thesis
    using assms(1,2) run p w l
    by (simp add: analyze_market_def success_report_def evaluation_def Let_def)
qed

lemma analyze_market_cases:
  obtains (failed) e out where "fetch_data v env = (Inl e, out)"
      "analyze_market v env = Some (error_report env (''Data fetch failed: '' @ e), out)"
  | (short) f out where "fetch_data v env = (Inr f, out)" "len f < BOLLINGER_PERIOD"
      "analyze_market v env =
         Some (error_report env (''Insufficient data: '' @ str_nat (len f) @ '' bars''), out)"
  | (ok) f out close where "fetch_data v env = (Inr f, out)" "\<not> len f < BOLLINGER_PERIOD"
      "cols f ''Close'' = Some close" "length close = len f"
      "analyze_market v env = Some (success_report env (evaluation v env close), out)"
proof (cases "fetch_data v env")
  case (Pair fetched out)
  show ?thesis
  proof (cases fetched)
    case (Inl e)
    with Pair show ?thesis using failed analyze_market_fetch_failed by blast
  next
    case (Inr f)
    with Pair have fd: "fetch_data v env = (Inr f, out)" by simp
    show ?thesis
    proof (cases "len f < BOLLINGER_PERIOD")
      case True
      with fd show ?thesis using short analyze_market_insufficient by blast
    next
      case False
      from fetch_data_wf [OF fd] obtain close
        where c: "cols f ''Close'' = Some close" "length close = len f"
        by (auto simp add: wf_frame_def split: option.splits)
      from analyze_market_success [OF fd False c] fd False c show ?thesis
        using ok by blast
    qed
  qed
qed

section \<open>Series of equal closes\<close>

lemma window_replicate:
  assumes "0 < period" "period - 1 \<le> i" "i < n"
  shows "window period i (replicate n c) = replicate period c"
proof -
  have "length (window period i (replicate n c)) = period"
    using length_window_full [of period i "replicate n c"] assms by simp
  moreover have "set (window period i (replicate n c)) \<subseteq> {c}"
    unfolding window_def using set_drop_subset set_take_subset by fastforce
  ultimately show ?thesis
    by (metis replicate_eqI singletonD subsetD)
qed

lemma mean_replicate: "0 < p \<Longrightarrow> mean (replicate p c) = c"
  by (simp add: mean_def sum_list_replicate)

lemma sample_std_replicate: "2 \<le> p \<Longrightarrow> sample_std (replicate p c) = Fin 0"
  by (simp add: sample_std_def mean_replicate sum_list_replicate)

lemma band_width_at_replicate:
  assumes "2 \<le> period" "period - 1 \<le> i" "i < n" "c \<noteq> 0"
  shows "band_width_at period (Fin k) (replicate n (Fin c)) i = Fin 0"
proof -
  have p: "0 < period" using assms(1) by simp
  have r: "replicate n (Fin c) = map Fin (replicate n c)" by simp
  have l: "i < length (replicate n c)" using assms(3) by simp
  have m: "roll_mean period (replicate n (Fin c)) i = Fin c"
    unfolding r roll_mean_Fin [OF p assms(2) l]
    by (simp add: window_replicate [OF p assms(2,3)] mean_replicate [OF p])
  have s: "roll_std period (replicate n (Fin c)) i = Fin 0"
    unfolding r roll_std_Fin [OF p assms(2) l]
    by (simp add: window_replicate [OF p assms(2,3)] sample_std_replicate [OF assms(1)])
  show ?thesis
    using assms(4) by (simp add: band_width_at_def m s fsub_def)
qed

lemma collect_Inr: "collect (map (\<lambda>x. Inr (g x)) xs) = Inr (map g xs)"
  by (induction xs) simp_all

lemma twelve_frame_bars:
  assumes "tcs \<noteq> []" and "sorted (map fst tcs)"
  shows "twelve_frame (bars_of tcs) = Inr (flat_frame tcs)"
proof -
  have d: "map td_datetime (bars_of tcs) = map (\<lambda>x. Inr (fst x)) tcs"
    by (simp add: bars_of_def bar_def case_prod_beta)
  have stamps: "collect (map td_datetime (bars_of tcs)) = Inr (map fst tcs)"
    unfolding d by (rule collect_Inr)
  have len: "length (map fst tcs) = length (bars_of tcs)"
    by (simp add: bars_of_def)
  have "map fst (zip (map fst tcs) (bars_of tcs)) = map fst tcs"
    using len by (simp only: map_fst_zip)
  with assms(2) have srt: "sort_key fst (zip (map fst tcs) (bars_of tcs)) = zip (map fst tcs) (bars_of tcs)"
    by (simp add: sort_key_id_if_sorted)
  have sel: "map (astype_float \<circ> g \<circ> snd) (zip (map fst tcs) (bars_of tcs)) =
             map (astype_float \<circ> g) (bars_of tcs)" for g :: "td_row \<Rightarrow> cell"
    using len by (metis map_map map_snd_zip)
  have col: "collect (map (astype_float \<circ> g) (bars_of tcs)) = Inr (map (Fin \<circ> snd) tcs)"
    if "\<And>t c. g (bar t c) = Numeric c" for g
  proof -
    have "map (astype_float \<circ> g) (bars_of tcs) = map (\<lambda>x. Inr ((Fin \<circ> snd) x)) tcs"
      by (simp add: bars_of_def case_prod_beta that)
    then show ?thesis by (simp only: collect_Inr)
  qed
  have ne: "bars_of tcs \<noteq> []" using assms(1) by (simp add: bars_of_def)
  have fst_zip: "map fst (zip (map fst tcs) (bars_of tcs)) = map fst tcs"
    using len by (simp only: map_fst_zip)
  show ?thesis
    unfolding twelve_frame_def
    using ne
    by (simp add: stamps srt sel col bar_def flat_frame_def fst_zip)
qed

lemma sorted_minutes20: "sorted minutes20"
  by (simp add: minutes20_def)

lemma fetch_data_base:
  "fetch_data v base_env = (Inr (flat_frame (zip minutes20 (replicate 20 1.1))), [])"
proof -
  have "twelve_frame (bars_of (zip minutes20 (replicate 20 1.1))) =
          Inr (flat_frame (zip minutes20 (replicate 20 1.1)))"
    by (rule twelve_frame_bars) (simp_all add: minutes20_def)
  then show ?thesis
    by (cases v) (simp_all add: fetch_data_def base_env_def raise_for_status_def)
qed

lemma cell_at_Band_Width:
  "i < length close \<Longrightarrow>
   cell_at (bands f period std close) ''Band_Width'' i = Some (band_width_at period std close i)"
  by (simp add: cell_at_def bands_Band_Width)

lemma SQUEEZE_THRESHOLD_pos: "0 < SQUEEZE_THRESHOLD v"
  by (cases v) simp_all

text \<open>
  Claim C6: for a series of length at least \<open>period\<close> whose closes are all the same
  positive number, the band width is 0 at every row from \<open>period - 1\<close> on, so the
  squeeze holds for every positive threshold and in the analysis of both variants.
  The period is at least 2, as a standard deviation needs two observations (the program's
  is 20).
\<close>

theorem C6_flat_series:
  assumes "0 < c" and "2 \<le> period" and "period \<le> n"
  shows "(\<forall>h df f. h df = Some f \<and> cols f ''Close'' = Some (replicate n (Fin c)) \<longrightarrow>
           (\<exists>h' f'. calculate_bollinger_bands h df period (Fin k) = Some (h', df) \<and>
              h' df = Some f' \<and>
              (\<forall>i. period - 1 \<le> i \<and> i < n \<longrightarrow> cell_at f' ''Band_Width'' i = Some (Fin 0)))) \<and>
         (\<forall>thr. 0 < thr \<longrightarrow> flt (Fin 0) (Fin thr)) \<and>
         (\<forall>v env f out.
            BOLLINGER_PERIOD \<le> n \<and> fetch_data v env = (Inr f, out) \<and>
            cols f ''Close'' = Some (replicate n (Fin c)) \<longrightarrow>
            (\<exists>r d. analyze_market v env = Some (r, out) \<and> status r = ''success'' \<and>
               data r = Some d \<and> band_width d = Fin 0 \<and> is_squeeze d))"
proof (intro conjI allI impI)
  fix h :: heap and df f
  assume a: "h df = Some f \<and> cols f ''Close'' = Some (replicate n (Fin c))"
  let ?f = "bands f period (Fin k) (replicate n (Fin c))"
  have run: "calculate_bollinger_bands h df period (Fin k) = Some (h(df \<mapsto> ?f), df)"
    using a by (simp add: calculate_bollinger_bands_eq)
  have "cell_at ?f ''Band_Width'' i = Some (Fin 0)" if "period - 1 \<le> i \<and> i < n" for i
    using that assms(1,2) by (simp add: cell_at_Band_Width band_width_at_replicate)
  with run show "\<exists>h' f'. calculate_bollinger_bands h df period (Fin k) = Some (h', df) \<and>
              h' df = Some f' \<and>
              (\<forall>i. period - 1 \<le> i \<and> i < n \<longrightarrow> cell_at f' ''Band_Width'' i = Some (Fin 0))"
    by simp
next
  fix thr :: real
  assume "0 < thr"
  then show "flt (Fin 0) (Fin thr)" by simp
next
  fix v env f out
  assume a: "BOLLINGER_PERIOD \<le> n \<and> fetch_data v env = (Inr f, out) \<and>
            cols f ''Close'' = Some (replicate n (Fin c))"
  then have fd: "fetch_data v env = (Inr f, out)"
    and cl: "cols f ''Close'' = Some (replicate n (Fin c))" and n: "BOLLINGER_PERIOD \<le> n"
    by simp_all
  from fetch_data_wf [OF fd] cl have len: "length (replicate n (Fin c)) = len f"
    by (simp add: wf_frame_def)
  with n have long: "\<not> len f < BOLLINGER_PERIOD" by simp
  have am: "analyze_market v env =
              Some (success_report env (evaluation v env (replicate n (Fin c))), out)"
    by (rule analyze_market_success [OF fd long cl len])
  have "latest_band_width (replicate n (Fin c)) = Fin 0"
    unfolding latest_band_width_def BOLLINGER_STD_def
    using n assms(1) by (intro band_width_at_replicate) (simp_all add: BOLLINGER_PERIOD_def)
  with am show "\<exists>r d. analyze_market v env = Some (r, out) \<and> status r = ''success'' \<and>
               data r = Some d \<and> band_width d = Fin 0 \<and> is_squeeze d"
    by (simp add: success_report_def evaluation_def SQUEEZE_THRESHOLD_pos)
qed

lemma flat_closes: "map (Fin \<circ> snd) (zip minutes20 (replicate 20 c)) = replicate 20 (Fin c)"
  by (simp add: minutes20_def numeral_eq_Suc)

theorem C6_flat_series_witness:
  "(0::real) < 1.1 \<and> (2::nat) \<le> 20 \<and> (20::nat) \<le> 20 \<and> BOLLINGER_PERIOD \<le> 20 \<and>
   fetch_data Cron base_env = (Inr (flat_frame (zip minutes20 (replicate 20 1.1))), []) \<and>
   cols (flat_frame (zip minutes20 (replicate 20 1.1))) ''Close'' = Some (replicate 20 (Fin 1.1)) \<and>
   (\<exists>r d. analyze_market Cron base_env = Some (r, []) \<and> status r = ''success'' \<and>
      data r = Some d \<and> band_width d = Fin 0 \<and> is_squeeze d) \<and>
   flt (Fin 0) (Fin (SQUEEZE_THRESHOLD Scheduler))"
proof -
  have hyps: "(0::real) < 1.1" "(2::nat) \<le> 20" "(20::nat) \<le> 20" by simp_all
  have p: "BOLLINGER_PERIOD \<le> 20" by (simp add: BOLLINGER_PERIOD_def)
  have fd: "fetch_data Cron base_env = (Inr (flat_frame (zip minutes20 (replicate 20 1.1))), [])"
    by (rule fetch_data_base)
  have cl: "cols (flat_frame (zip minutes20 (replicate 20 1.1))) ''Close'' = Some (replicate 20 (Fin 1.1))"
    by (simp add: flat_frame_def flat_closes)
  note t = C6_flat_series [OF hyps, of 2]
  from t p fd cl
  have "\<exists>r d. analyze_market Cron base_env = Some (r, []) \<and> status r = ''success'' \<and>
      data r = Some d \<and> band_width d = Fin 0 \<and> is_squeeze d"
    by blast
  moreover from t have "flt (Fin 0) (Fin (SQUEEZE_THRESHOLD Scheduler))"
    by simp
  ultimately show ?thesis using hyps p fd cl by blast
qed

section \<open>Runs\<close>

lemma fetch_data_no_dispatch:
  "fetch_data v env = (x, out) \<Longrightarrow> \<not> dispatch_attempted out"
  by (cases v) (auto simp add: fetch_data_def dispatch_attempted_def split: sum.splits)

lemma dispatch_attempted_append [simp]:
  "dispatch_attempted (xs @ ys) = (dispatch_attempted xs \<or> dispatch_attempted ys)"
  by (simp add: dispatch_attempted_def)

lemma dispatch_attempted_Cons [simp]:
  "dispatch_attempted (x # xs) = (is_dispatch x \<or> dispatch_attempted xs)"
  by (simp add: dispatch_attempted_def)

lemma dispatch_attempted_Nil [simp]: "\<not> dispatch_attempted []"
  by (simp add: dispatch_attempted_def)

lemma send_trade_alert_events:
  "\<exists>out. snd (send_trade_alert v env d) = Call_Send_Trade_Alert d # out"
  by (simp add: send_trade_alert_def Let_def split: prod.splits)

lemma on_analysis_no_signal:
  "\<not> signal d \<Longrightarrow>
   on_analysis v env r d s = ([Print_No_Signal (join '', '' (reasons d))], r, s)"
  by (simp add: on_analysis_def)

lemma on_analysis_dispatch:
  "dispatch_attempted (fst (on_analysis v env r d s)) =
     (signal d \<and> should_dispatch (now_epoch env) s)"
proof -
  obtain out where "snd (send_trade_alert v env d) = Call_Send_Trade_Alert d # out"
    using send_trade_alert_events by blast
  then show ?thesis
    by (cases "send_trade_alert v env d")
       (auto simp add: on_analysis_def should_dispatch_def Let_def split: prod.splits)
qed

lemma on_analysis_state: "snd (snd (on_analysis v env r d s)) = s"
  by (simp add: on_analysis_def Let_def set_last_alert_time_def split: prod.splits)

lemma on_analysis_data: "data (fst (snd (on_analysis v env r d s))) = data r"
  by (cases v) (simp_all add: on_analysis_def Let_def split: prod.splits)

lemma run_fetch_failed:
  assumes "analyze_market v env = Some (error_report env msg, out)"
  shows "run v env s =
     (case v of
        Cron \<Rightarrow> (Print_Triggered # out @ [Send_Response 500, Write_Body (error_report env msg)], s)
      | Scheduler \<Rightarrow>
          if configured env then (Print_Triggered # out @ [Print_Execution_Failed msg], s)
          else ([Print_Critical, Sys_Exit 1], s))"
  using assms
  by (cases v)
     (simp_all add: do_GET_def main_execution_def error_report_def configured_def respond_def
        json_dumps_def)

lemma run_success:
  assumes "analyze_market v env = Some (success_report env d, out)"
  shows "run v env s =
     (case v of
        Cron \<Rightarrow>
          (Print_Triggered # out @ fst (on_analysis Cron env (success_report env d) d s) @
             [Send_Response 200, Uncaught],
           snd (snd (on_analysis Cron env (success_report env d) d s)))
      | Scheduler \<Rightarrow>
          if configured env
          then (Print_Triggered # out @ fst (on_analysis Scheduler env (success_report env d) d s),
                snd (snd (on_analysis Scheduler env (success_report env d) d s)))
          else ([Print_Critical, Sys_Exit 1], s))"
proof (cases v)
  case Cron
  obtain evs r' s' where oa: "on_analysis Cron env (success_report env d) d s = (evs, r', s')"
    by (cases "on_analysis Cron env (success_report env d) d s")
  from on_analysis_data [of Cron env "success_report env d" d s] oa
  have "data r' = Some d"
    by (simp add: success_report_def)
  then have "respond 200 r' = [Send_Response 200, Uncaught]"
    by (simp add: respond_def json_dumps_def)
  with assms Cron oa show ?thesis
    by (simp add: do_GET_def success_report_def)
next
  case Scheduler
  with assms show ?thesis
    by (simp add: main_execution_def success_report_def configured_def split: prod.splits)
qed

lemma run_state: "snd (run v env s) = s"
proof (cases v env rule: analyze_market_cases)
  case (failed e out)
  show ?thesis
    unfolding run_fetch_failed [OF failed(2)] by (simp split: variant.splits)
next
  case (short f out)
  show ?thesis
    unfolding run_fetch_failed [OF short(3)] by (simp split: variant.splits)
next
  case (ok f out close)
  show ?thesis
    unfolding run_success [OF ok(5)] by (simp add: on_analysis_state split: variant.splits)
qed

text \<open>
  Claim C7: when the fetched series has fewer bars than the lookback period, the analysis
  returns an error report whose message reports the insufficient data and which carries
  no evaluation; the run attempts no dispatch and leaves the state alone. \<open>API/cron.py\<close>
  answers 500 with the report, \<open>alert_scheduler.py\<close> prints its message.
\<close>

theorem C7_insufficient_data:
  assumes "fetch_data v env = (Inr f, out)" and "len f < BOLLINGER_PERIOD"
  shows "\<exists>r. analyze_market v env = Some (r, out) \<and>
           status r = ''error'' \<and>
           message r = ''Insufficient data: '' @ str_nat (len f) @ '' bars'' \<and>
           data r = None \<and>
           \<not> dispatch_attempted (fst (run v env s)) \<and>
           snd (run v env s) = s \<and>
           (v = Cron \<longrightarrow>
              fst (run v env s) = Print_Triggered # out @ [Send_Response 500, Write_Body r]) \<and>
           (v = Scheduler \<and> configured env \<longrightarrow>
              fst (run v env s) = Print_Triggered # out @ [Print_Execution_Failed (message r)])"
proof -
  let ?r = "error_report env (''Insufficient data: '' @ str_nat (len f) @ '' bars'')"
  have am: "analyze_market v env = Some (?r, out)"
    by (rule analyze_market_insufficient [OF assms])
  have quiet: "\<not> dispatch_attempted out"
    by (rule fetch_data_no_dispatch [OF assms(1)])
  have r: "status ?r = ''error''" "data ?r = None"
    "message ?r = ''Insufficient data: '' @ str_nat (len f) @ '' bars''"
    by (simp_all add: error_report_def)
  have tr: "\<not> dispatch_attempted (fst (run v env s))"
    unfolding run_fetch_failed [OF am] using quiet by (simp split: variant.splits)
  have c: "fst (run v env s) = Print_Triggered # out @ [Send_Response 500, Write_Body ?r]"
    if "v = Cron"
    unfolding run_fetch_failed [OF am] using that by simp
  have sch: "fst (run v env s) = Print_Triggered # out @ [Print_Execution_Failed (message ?r)]"
    if "v = Scheduler \<and> configured env"
    unfolding run_fetch_failed [OF am] using that by (simp add: error_report_def)
  from am r tr c sch run_state [of v env s] show ?thesis by blast
qed

lemma fetch_data_short:
  "fetch_data v short_env = (Inr (flat_frame [(0, 1.1), (60, 1.2)]), [])"
proof -
  have "twelve_frame (bars_of [(0, 1.1), (60, 1.2)]) = Inr (flat_frame [(0, 1.1), (60, 1.2)])"
    by (rule twelve_frame_bars) simp_all
  then show ?thesis
    by (cases v) (simp_all add: fetch_data_def short_env_def base_env_def raise_for_status_def)
qed

lemma str_nat_2: "str_nat 2 = ''2''"
  by (simp add: str_nat.simps digit_def)

theorem C7_insufficient_data_witness:
  "fetch_data Cron short_env = (Inr (flat_frame [(0, 1.1), (60, 1.2)]), []) \<and>
   len (flat_frame [(0, 1.1), (60, 1.2)]) < BOLLINGER_PERIOD \<and>
   (\<exists>r. analyze_market Cron short_env = Some (r, []) \<and>
        status r = ''error'' \<and> message r = ''Insufficient data: 2 bars'' \<and> data r = None \<and>
        \<not> dispatch_attempted (fst (run Cron short_env ())) \<and>
        fst (run Cron short_env ()) = [Print_Triggered, Send_Response 500, Write_Body r])"
proof -
  let ?f = "flat_frame [(0, 1.1), (60, 1.2)]"
  have fd: "fetch_data Cron short_env = (Inr ?f, [])"
    by (rule fetch_data_short)
  have l: "len ?f = 2"
    by (simp add: len_def flat_frame_def)
  then have short: "len ?f < BOLLINGER_PERIOD"
    by (simp add: BOLLINGER_PERIOD_def)
  from C7_insufficient_data [OF fd short, of "()"] obtain r
    where r: "analyze_market Cron short_env = Some (r, [])" "status r = ''error''" "data r = None"
      "\<not> dispatch_attempted (fst (run Cron short_env ()))"
      and m: "message r = ''Insufficient data: '' @ str_nat (len ?f) @ '' bars''"
      and t: "fst (run Cron short_env ()) = Print_Triggered # [] @ [Send_Response 500, Write_Body r]"
    by blast
  have m': "message r = ''Insufficient data: 2 bars''"
    unfolding m l str_nat_2 by simp
  from t have t': "fst (run Cron short_env ()) = [Print_Triggered, Send_Response 500, Write_Body r]"
    by simp
  from fd short r m' t' show ?thesis by blast
qed

section \<open>Failure of both providers\<close>

text \<open>
  Claim C4 as stated: the failure message holds both providers' errors. With the primary
  failing with \<open>API Error: limit reached\<close> and the fallback with
  \<open>connection refused\<close>, the message holds the second only.
\<close>

theorem C4_primary_error_dropped:
  "fetch_twelve_data Cron both_fail_env = Inl ''API Error: limit reached'' \<and>
   fetch_yahoo_fallback Cron both_fail_env = Inl ''connection refused'' \<and>
   map_option (message \<circ> fst) (analyze_market Cron both_fail_env) =
     Some ''Data fetch failed: connection refused'' \<and>
   \<not> sublist ''API Error: limit reached'' ''Data fetch failed: connection refused''"
proof -
  have a: "fetch_twelve_data Cron both_fail_env = Inl ''API Error: limit reached''"
    by (simp add: both_fail_env_def base_env_def api_error_def)
  have b: "fetch_yahoo_fallback Cron both_fail_env = Inl ''connection refused''"
    by (simp add: both_fail_env_def base_env_def)
  have "fetch_data Cron both_fail_env = (Inl ''connection refused'', [])"
    unfolding fetch_data_def a b by simp
  then have c: "map_option (message \<circ> fst) (analyze_market Cron both_fail_env) =
     Some ''Data fetch failed: connection refused''"
    by (simp add: analyze_market_fetch_failed error_report_def)
  have d: "\<not> sublist ''API Error: limit reached'' ''Data fetch failed: connection refused''"
    by (simp add: sublist_code)
  from a b c d show ?thesis by blast
qed

text \<open>
  Claim C4, amended: when both providers fail, the analysis ends with an error report
  whose message is \<open>Data fetch failed: \<close> followed by the fallback provider's error
  alone (\<open>alert_scheduler.py\<close> prints the primary's error before it tries the
  fallback); when at least one provider succeeds the report never is that error.
\<close>

theorem C4_data_unavailable:
  "(\<forall>e1 e2. fetch_twelve_data v env = Inl e1 \<and> fetch_yahoo_fallback v env = Inl e2 \<longrightarrow>
      (\<exists>r out. analyze_market v env = Some (r, out) \<and> status r = ''error'' \<and>
         message r = ''Data fetch failed: '' @ e2 \<and> data r = None \<and>
         out = (case v of Cron \<Rightarrow> [] | Scheduler \<Rightarrow> [Print_Fallback e1]))) \<and>
   ((\<exists>f. fetch_twelve_data v env = Inr f) \<or> (\<exists>f. fetch_yahoo_fallback v env = Inr f) \<longrightarrow>
      (\<exists>r out. analyze_market v env = Some (r, out) \<and>
         \<not> prefix ''Data fetch failed: '' (message r)))"
proof (intro conjI allI impI)
  fix e1 e2
  assume a: "fetch_twelve_data v env = Inl e1 \<and> fetch_yahoo_fallback v env = Inl e2"
  then have "fetch_data v env = (Inl e2, case v of Cron \<Rightarrow> [] | Scheduler \<Rightarrow> [Print_Fallback e1])"
    by (simp add: fetch_data_def)
  from analyze_market_fetch_failed [OF this]
  show "\<exists>r out. analyze_market v env = Some (r, out) \<and> status r = ''error'' \<and>
         message r = ''Data fetch failed: '' @ e2 \<and> data r = None \<and>
         out = (case v of Cron \<Rightarrow> [] | Scheduler \<Rightarrow> [Print_Fallback e1])"
    by (simp add: error_report_def)
next
  assume "(\<exists>f. fetch_twelve_data v env = Inr f) \<or> (\<exists>f. fetch_yahoo_fallback v env = Inr f)"
  then obtain f out where fd: "fetch_data v env = (Inr f, out)"
    by (cases "fetch_twelve_data v env") (auto simp add: fetch_data_def)
  show "\<exists>r out. analyze_market v env = Some (r, out) \<and>
         \<not> prefix ''Data fetch failed: '' (message r)"
  proof (cases v env rule: analyze_market_cases)
    case (failed e out')
    with fd show ?thesis by simp
  next
    case (short f' out')
    then show ?thesis by (simp add: error_report_def)
  next
    case (ok f' out' close)
    then show ?thesis by (simp add: success_report_def)
  qed
qed

theorem C4_data_unavailable_witness:
  "fetch_twelve_data Scheduler both_fail_env = Inl ''API Error: limit reached'' \<and>
   fetch_yahoo_fallback Scheduler both_fail_env = Inl ''Yahoo fetch failed: connection refused'' \<and>
   (\<exists>f. fetch_twelve_data Scheduler base_env = Inr f) \<and>
   (\<exists>r out. analyze_market Scheduler both_fail_env = Some (r, out) \<and> status r = ''error'' \<and>
      message r = ''Data fetch failed: Yahoo fetch failed: connection refused'' \<and>
      data r = None \<and> out = [Print_Fallback ''API Error: limit reached'']) \<and>
   (\<exists>r out. analyze_market Scheduler base_env = Some (r, out) \<and>
      \<not> prefix ''Data fetch failed: '' (message r))"
proof -
  have a: "fetch_twelve_data Scheduler both_fail_env = Inl ''API Error: limit reached''"
    by (simp add: both_fail_env_def base_env_def api_error_def raise_for_status_def)
  have b: "fetch_yahoo_fallback Scheduler both_fail_env = Inl ''Yahoo fetch failed: connection refused''"
    by (simp add: both_fail_env_def base_env_def)
  from fetch_data_base [of Scheduler] have c: "\<exists>f. fetch_twelve_data Scheduler base_env = Inr f"
    by (auto simp add: fetch_data_def split: sum.splits)
  from a b C4_data_unavailable [of Scheduler both_fail_env]
  have d: "\<exists>r out. analyze_market Scheduler both_fail_env = Some (r, out) \<and> status r = ''error'' \<and>
      message r = ''Data fetch failed: Yahoo fetch failed: connection refused'' \<and>
      data r = None \<and> out = [Print_Fallback ''API Error: limit reached'']"
    by simp
  from c C4_data_unavailable [of Scheduler base_env]
  have e: "\<exists>r out. analyze_market Scheduler base_env = Some (r, out) \<and>
      \<not> prefix ''Data fetch failed: '' (message r)"
    by blast
  from a b c d e show ?thesis by blast
qed

section \<open>Dispatch only on a signal\<close>

lemma reasons_cases:
  "(''No squeeze'' \<in> set (reasons d)) = (\<not> is_squeeze d)"
  "(''Invalid hour'' \<in> set (reasons d)) = (\<not> is_valid_hour d)"
  by (simp_all add: reasons_def)

lemma evaluation_signal:
  "signal (evaluation v env close) =
     (is_squeeze (evaluation v env close) \<and> is_valid_hour (evaluation v env close))"
  "is_valid_hour (evaluation v env close) = (now_hour env \<notin> set EXCLUDED_HOURS)"
  by (simp_all add: evaluation_def)

text \<open>
  A run attempts a dispatch only after an analysis whose signal is true (a squeeze at a
  valid hour). When the analysis has no signal, the run attempts no dispatch and prints
  which of the two conditions failed; \<open>alert_scheduler.py\<close> then returns, while
  \<open>API/cron.py\<close> sends status 200 and raises in \<open>json.dumps\<close>.
\<close>

lemma dispatch_only_on_signal:
  "(dispatch_attempted (fst (run v env s)) \<longrightarrow>
      (\<exists>r out d. analyze_market v env = Some (r, out) \<and> status r = ''success'' \<and>
         data r = Some d \<and> signal d \<and> is_squeeze d \<and> is_valid_hour d \<and>
         now_hour env \<notin> set EXCLUDED_HOURS)) \<and>
   (\<forall>r out d. analyze_market v env = Some (r, out) \<and> data r = Some d \<and> \<not> signal d \<and>
        (v = Scheduler \<longrightarrow> configured env) \<longrightarrow>
        \<not> dispatch_attempted (fst (run v env s)) \<and>
        snd (run v env s) = s \<and>
        fst (run v env s) =
          Print_Triggered # out @ [Print_No_Signal (join '', '' (reasons d))] @
          (case v of Cron \<Rightarrow> [Send_Response 200, Uncaught] | Scheduler \<Rightarrow> []) \<and>
        reasons d \<noteq> [] \<and>
        (''No squeeze'' \<in> set (reasons d)) = (\<not> is_squeeze d) \<and>
        (''Invalid hour'' \<in> set (reasons d)) = (\<not> is_valid_hour d))"
proof (cases v env rule: analyze_market_cases)
  case (failed e out)
  have "\<not> dispatch_attempted out"
    by (rule fetch_data_no_dispatch [OF failed(1)])
  then have "\<not> dispatch_attempted (fst (run v env s))"
    unfolding run_fetch_failed [OF failed(2)] by (simp split: variant.splits)
  with failed(2) show ?thesis by (auto simp add: error_report_def)
next
  case (short f out)
  have "\<not> dispatch_attempted out"
    by (rule fetch_data_no_dispatch [OF short(1)])
  then have "\<not> dispatch_attempted (fst (run v env s))"
    unfolding run_fetch_failed [OF short(3)] by (simp split: variant.splits)
  with short(3) show ?thesis by (auto simp add: error_report_def)
next
  case (ok f out close)
  let ?d = "evaluation v env close"
  let ?r = "success_report env ?d"
  have quiet: "\<not> dispatch_attempted out"
    by (rule fetch_data_no_dispatch [OF ok(1)])
  have r: "status ?r = ''success''" "data ?r = Some ?d"
    by (simp_all add: success_report_def)
  have one: "signal ?d" if "dispatch_attempted (fst (run v env s))"
    using that quiet unfolding run_success [OF ok(5)]
    by (simp add: on_analysis_dispatch split: variant.splits if_splits)
  have two: "fst (run v env s) =
          Print_Triggered # out @ [Print_No_Signal (join '', '' (reasons ?d))] @
          (case v of Cron \<Rightarrow> [Send_Response 200, Uncaught] | Scheduler \<Rightarrow> [])"
    if "\<not> signal ?d" "v = Scheduler \<longrightarrow> configured env"
    using that unfolding run_success [OF ok(5)]
    by (cases v) (simp_all add: on_analysis_no_signal)
  have three: "reasons ?d \<noteq> []" if "\<not> signal ?d"
    using that by (auto simp add: reasons_def evaluation_def)
  have first: "dispatch_attempted (fst (run v env s)) \<longrightarrow>
      (\<exists>r out d. analyze_market v env = Some (r, out) \<and> status r = ''success'' \<and>
         data r = Some d \<and> signal d \<and> is_squeeze d \<and> is_valid_hour d \<and>
         now_hour env \<notin> set EXCLUDED_HOURS)"
    using one ok(5) r evaluation_signal [of v env close] by blast
  have second: "\<not> dispatch_attempted (fst (run v env s)) \<and>
        snd (run v env s) = s \<and>
        fst (run v env s) =
          Print_Triggered # out' @ [Print_No_Signal (join '', '' (reasons d))] @
          (case v of Cron \<Rightarrow> [Send_Response 200, Uncaught] | Scheduler \<Rightarrow> []) \<and>
        reasons d \<noteq> [] \<and>
        (''No squeeze'' \<in> set (reasons d)) = (\<not> is_squeeze d) \<and>
        (''Invalid hour'' \<in> set (reasons d)) = (\<not> is_valid_hour d)"
    if a: "analyze_market v env = Some (r', out') \<and> data r' = Some d \<and> \<not> signal d \<and>
        (v = Scheduler \<longrightarrow> configured env)" for r' out' d
  proof -
    from a ok(5) have eq: "r' = ?r" "out' = out" by simp_all
    with a r have d: "d = ?d" by simp
    from a d have ns: "\<not> signal ?d" by simp
    from a have cf: "v = Scheduler \<longrightarrow> configured env" by simp
    from one ns have "\<not> dispatch_attempted (fst (run v env s))" by blast
    with two [OF ns cf] three [OF ns] run_state [of v env s] reasons_cases [of ?d]
    show ?thesis unfolding eq d by blast
  qed
  from first second show ?thesis by blast
qed

lemma fetch_data_flat:
  assumes "twelve_reply env = Reply 200 [] (Inr (TD_Values (bars_of tcs)))"
    and "tcs \<noteq> []" and "sorted (map fst tcs)"
  shows "fetch_data v env = (Inr (flat_frame tcs), [])"
proof -
  have "twelve_frame (bars_of tcs) = Inr (flat_frame tcs)"
    by (rule twelve_frame_bars [OF assms(2,3)])
  then show ?thesis
    using assms(1) by (cases v) (simp_all add: fetch_data_def raise_for_status_def)
qed

lemma analyze_market_flat:
  assumes "twelve_reply env = Reply 200 [] (Inr (TD_Values (bars_of tcs)))"
    and "sorted (map fst tcs)" and "BOLLINGER_PERIOD \<le> length tcs"
  shows "analyze_market v env =
           Some (success_report env (evaluation v env (map (Fin \<circ> snd) tcs)), [])"
proof -
  from assms(3) have ne: "tcs \<noteq> []" by (auto simp add: BOLLINGER_PERIOD_def)
  have fd: "fetch_data v env = (Inr (flat_frame tcs), [])"
    by (rule fetch_data_flat [OF assms(1) ne assms(2)])
  have long: "\<not> len (flat_frame tcs) < BOLLINGER_PERIOD"
    using assms(3) by (simp add: len_def flat_frame_def)
  have cl: "cols (flat_frame tcs) ''Close'' = Some (map (Fin \<circ> snd) tcs)"
    by (simp add: flat_frame_def)
  have len: "length (map (Fin \<circ> snd) tcs) = len (flat_frame tcs)"
    by (simp add: len_def flat_frame_def)
  show ?thesis
    by (rule analyze_market_success [OF fd long cl len])
qed

lemma latest_band_width_flat: "latest_band_width (replicate 20 (Fin 1.1)) = Fin 0"
  unfolding latest_band_width_def BOLLINGER_STD_def
  by (intro band_width_at_replicate) (simp_all add: BOLLINGER_PERIOD_def)

lemma analyze_market_base_hour:
  "analyze_market v (base_env\<lparr>now_hour := h\<rparr>) =
     Some (success_report (base_env\<lparr>now_hour := h\<rparr>)
            (evaluation v (base_env\<lparr>now_hour := h\<rparr>) (replicate 20 (Fin 1.1))), [])"
proof -
  have "analyze_market v (base_env\<lparr>now_hour := h\<rparr>) =
     Some (success_report (base_env\<lparr>now_hour := h\<rparr>)
            (evaluation v (base_env\<lparr>now_hour := h\<rparr>)
               (map (Fin \<circ> snd) (zip minutes20 (replicate 20 1.1)))), [])"
    by (rule analyze_market_flat)
       (simp_all add: base_env_def minutes20_def BOLLINGER_PERIOD_def)
  then show ?thesis by (simp only: flat_closes)
qed

text \<open>
  Claim C8 at a failing input: the primary provider returns twenty bars at 1.1 and the
  clock reads 08:00 UTC, an excluded hour. Both files find a squeeze at an invalid hour,
  attempt no dispatch and print the failed condition. \<open>alert_scheduler.py\<close> then
  returns. \<open>API/cron.py\<close> sends status 200 and \<open>json.dumps\<close> raises on the report: the
  run does not complete and no report is written.
\<close>

theorem C8_cron_report_not_written:
  "fst (run Cron excluded_hour_env ()) =
     [Print_Triggered, Print_No_Signal ''Invalid hour'', Send_Response 200, Uncaught] \<and>
   fst (run Scheduler excluded_hour_env ()) =
     [Print_Triggered, Print_No_Signal ''Invalid hour''] \<and>
   \<not> dispatch_attempted (fst (run Cron excluded_hour_env ())) \<and>
   \<not> dispatch_attempted (fst (run Scheduler excluded_hour_env ()))"
proof -
  let ?d = "\<lambda>v. evaluation v excluded_hour_env (replicate 20 (Fin 1.1))"
  have am: "analyze_market v excluded_hour_env =
              Some (success_report excluded_hour_env (?d v), [])" for v
    unfolding excluded_hour_env_def by (rule analyze_market_base_hour)
  have ns: "\<not> signal (?d v)" for v
    by (simp add: evaluation_def EXCLUDED_HOURS_def excluded_hour_env_def)
  have sq: "is_squeeze (?d v)" for v
    by (simp add: evaluation_def latest_band_width_flat SQUEEZE_THRESHOLD_pos)
  have vh: "\<not> is_valid_hour (?d v)" for v
    by (simp add: evaluation_def EXCLUDED_HOURS_def excluded_hour_env_def)
  have rs: "join '', '' (reasons (?d v)) = ''Invalid hour''" for v
    using sq [of v] vh [of v] by (simp add: reasons_def)
  have cf: "configured excluded_hour_env"
    by (simp add: configured_def falsy_def excluded_hour_env_def base_env_def)
  have c: "fst (run Cron excluded_hour_env ()) =
     [Print_Triggered, Print_No_Signal ''Invalid hour'', Send_Response 200, Uncaught]"
    unfolding run_success [OF am] by (simp add: on_analysis_no_signal [OF ns] rs)
  have g: "fst (run Scheduler excluded_hour_env ()) =
     [Print_Triggered, Print_No_Signal ''Invalid hour'']"
    unfolding run_success [OF am] using cf by (simp add: on_analysis_no_signal [OF ns] rs)
  from c g show ?thesis by simp
qed

section \<open>The fetched series\<close>

text \<open>
  Claim C5 as stated: the returned series has no two bars with the same timestamp. A
  primary payload with two bars at second 60 is accepted and both bars are returned.
\<close>

theorem C5_duplicates_kept:
  "fetch_twelve_data Cron dup_env = Inr (flat_frame [(0, 1.1), (60, 1.2), (60, 1.3)]) \<and>
   index (flat_frame [(0, 1.1), (60, 1.2), (60, 1.3)]) = [0, 60, 60] \<and>
   \<not> distinct (index (flat_frame [(0, 1.1), (60, 1.2), (60, 1.3)]))"
proof -
  have "twelve_frame (bars_of [(0, 1.1), (60, 1.2), (60, 1.3)]) =
          Inr (flat_frame [(0, 1.1), (60, 1.2), (60, 1.3)])"
    by (rule twelve_frame_bars) simp_all
  then have "fetch_twelve_data Cron dup_env = Inr (flat_frame [(0, 1.1), (60, 1.2), (60, 1.3)])"
    by (simp add: dup_env_def base_env_def)
  then show ?thesis by (simp add: flat_frame_def)
qed

lemma twelve_frame_index:
  assumes "twelve_frame vals = Inr f"
  shows "\<exists>stamps. collect (map td_datetime vals) = Inr stamps \<and>
           sorted (index f) \<and> mset (index f) = mset stamps"
proof -
  from twelve_frame_Inr [OF assms] obtain stamps
    where c: "collect (map td_datetime vals) = Inr stamps"
      and i: "index f = map fst (sort_key fst (zip stamps vals))"
    by blast
  from collect_length [OF c] have l: "length stamps = length vals" by simp
  have s: "sorted (index f)"
    unfolding i by (rule sorted_sort_key)
  have "mset (index f) = image_mset fst (mset (sort_key fst (zip stamps vals)))"
    unfolding i by simp
  also have "\<dots> = mset (map fst (zip stamps vals))"
    by simp
  also have "\<dots> = mset stamps"
    using l by simp
  finally show ?thesis using c s by blast
qed

lemma yahoo_frame_index:
  "sorted (index (yahoo_frame quotes))"
  "mset (index (yahoo_frame quotes)) = mset (map y_timestamp (filter notna quotes))"
  by (simp_all add: yahoo_frame_def Let_def sorted_sort_key)

lemma yahoo_frame_finite:
  assumes "name \<in> set price_columns"
  shows "\<exists>series. cols (yahoo_frame quotes) name = Some series \<and>
           length series = length (index (yahoo_frame quotes)) \<and> list_all is_finite series"
proof -
  have "list_all is_finite (map (to_float \<circ> g) (sort_key y_timestamp (filter notna quotes)))"
    if "\<And>r. notna r \<Longrightarrow> g r \<noteq> None" for g :: "y_row \<Rightarrow> real option"
  proof -
    have "is_finite (to_float (g r))" if "notna r" for r
      using \<open>notna r \<Longrightarrow> g r \<noteq> None\<close> [OF that] by (cases "g r") simp_all
    then show ?thesis by (simp add: list_all_iff)
  qed
  then show ?thesis
    using assms
    by (auto simp add: price_columns_def yahoo_frame_def Let_def notna_def)
qed

text \<open>
  Claim C5, amended: a series accepted from either provider is sorted ascending by
  timestamp and is not deduplicated. The primary path returns every bar of a payload
  whose prices are all numbers, bars that share a timestamp included; the fallback path
  returns exactly the bars without a null price, so its four price columns hold numbers
  only.
\<close>

theorem C5_fetched_series:
  "(fetch_twelve_data v env = Inr f \<longrightarrow>
      (\<exists>code err vals stamps.
         twelve_reply env = Reply code err (Inr (TD_Values vals)) \<and>
         collect (map td_datetime vals) = Inr stamps \<and>
         sorted (index f) \<and>
         (list_all numeric_row vals \<longrightarrow> mset (index f) = mset stamps))) \<and>
   (fetch_yahoo_fallback v env = Inr f \<longrightarrow>
      (\<exists>code err quotes.
         yahoo_reply env = Reply code err (Inr (Y_Chart quotes)) \<and>
         sorted (index f) \<and>
         mset (index f) = mset (map y_timestamp (filter notna quotes)) \<and>
         (\<forall>name. name \<in> set price_columns \<longrightarrow>
            (\<exists>series. cols f name = Some series \<and> length series = length (index f) \<and>
               list_all is_finite series))))"
proof (intro conjI impI)
  assume "fetch_twelve_data v env = Inr f"
  from fetch_twelve_data_Inr [OF this] obtain code err vals
    where r: "twelve_reply env = Reply code err (Inr (TD_Values vals))"
      and t: "twelve_frame vals = Inr f"
    by blast
  from twelve_frame_index [OF t] r
  show "\<exists>code err vals stamps.
         twelve_reply env = Reply code err (Inr (TD_Values vals)) \<and>
         collect (map td_datetime vals) = Inr stamps \<and>
         sorted (index f) \<and>
         (list_all numeric_row vals \<longrightarrow> mset (index f) = mset stamps)"
    by blast
next
  assume "fetch_yahoo_fallback v env = Inr f"
  from fetch_yahoo_fallback_Inr [OF this] obtain code err quotes
    where r: "yahoo_reply env = Reply code err (Inr (Y_Chart quotes))"
      and f: "f = yahoo_frame quotes"
    by blast
  from r yahoo_frame_index [of quotes] yahoo_frame_finite [of _ quotes]
  show "\<exists>code err quotes.
         yahoo_reply env = Reply code err (Inr (Y_Chart quotes)) \<and>
         sorted (index f) \<and>
         mset (index f) = mset (map y_timestamp (filter notna quotes)) \<and>
         (\<forall>name. name \<in> set price_columns \<longrightarrow>
            (\<exists>series. cols f name = Some series \<and> length series = length (index f) \<and>
               list_all is_finite series))"
    unfolding f by blast
qed

lemma numeric_bars: "list_all numeric_row (bars_of tcs)"
  by (simp add: list_all_iff bars_of_def numeric_row_def bar_def case_prod_beta)

lemma collect_bars: "collect (map td_datetime (bars_of tcs)) = Inr (map fst tcs)"
proof -
  have "map td_datetime (bars_of tcs) = map (\<lambda>x. Inr (fst x)) tcs"
    by (simp add: bars_of_def bar_def case_prod_beta)
  then show ?thesis by (simp only: collect_Inr)
qed

theorem C5_fetched_series_witness:
  "fetch_twelve_data Cron base_env = Inr (flat_frame (zip minutes20 (replicate 20 1.1))) \<and>
   list_all numeric_row (bars_of (zip minutes20 (replicate 20 1.1))) \<and>
   sorted (index (flat_frame (zip minutes20 (replicate 20 1.1)))) \<and>
   mset (index (flat_frame (zip minutes20 (replicate 20 1.1)))) = mset minutes20 \<and>
   (\<exists>f. fetch_yahoo_fallback Cron yahoo_env = Inr f \<and> index f = [0, 120] \<and>
      sorted (index f) \<and> ''Close'' \<in> set price_columns \<and>
      (\<exists>series. cols f ''Close'' = Some series \<and> length series = length (index f) \<and>
         list_all is_finite series))"
proof -
  let ?tcs = "zip minutes20 (replicate 20 (1.1::real))"
  let ?f = "flat_frame ?tcs"
  let ?q = "[quote_row 120 (Some 1.15), quote_row 60 None, quote_row 0 (Some 1.1)]"
  have reply: "twelve_reply base_env = Reply 200 [] (Inr (TD_Values (bars_of ?tcs)))"
    by (simp add: base_env_def)
  have "twelve_frame (bars_of ?tcs) = Inr ?f"
    by (rule twelve_frame_bars) (simp_all add: minutes20_def)
  then have fd: "fetch_twelve_data Cron base_env = Inr ?f"
    by (simp add: base_env_def)
  have num: "list_all numeric_row (bars_of ?tcs)"
    by (rule numeric_bars)
  have st: "map fst ?tcs = minutes20"
    by (simp add: minutes20_def)
  from fd C5_fetched_series [of Cron base_env ?f] obtain code err vals stamps
    where r: "twelve_reply base_env = Reply code err (Inr (TD_Values vals))"
      and c: "collect (map td_datetime vals) = Inr stamps"
      and s: "sorted (index ?f)"
      and m: "list_all numeric_row vals \<longrightarrow> mset (index ?f) = mset stamps"
    by blast
  from r reply have v: "vals = bars_of ?tcs" by simp
  with c have "stamps = minutes20"
    by (simp only: collect_bars st sum.inject)
  with m v num have ms: "mset (index ?f) = mset minutes20" by blast
  have fy: "fetch_yahoo_fallback Cron yahoo_env = Inr (yahoo_frame ?q)"
    by (simp add: yahoo_env_def base_env_def)
  have pc: "''Close'' \<in> set price_columns"
    by (simp add: price_columns_def)
  from fy C5_fetched_series [of Cron yahoo_env "yahoo_frame ?q"] obtain code' err' quotes
    where r': "yahoo_reply yahoo_env = Reply code' err' (Inr (Y_Chart quotes))"
      and s': "sorted (index (yahoo_frame ?q))"
      and k: "\<forall>name. name \<in> set price_columns \<longrightarrow>
            (\<exists>series. cols (yahoo_frame ?q) name = Some series \<and>
               length series = length (index (yahoo_frame ?q)) \<and> list_all is_finite series)"
    by blast
  from k pc have fin: "\<exists>series. cols (yahoo_frame ?q) ''Close'' = Some series \<and>
               length series = length (index (yahoo_frame ?q)) \<and> list_all is_finite series"
    by blast
  have ix: "index (yahoo_frame ?q) = [0, 120]"
    by (simp add: yahoo_frame_def Let_def notna_def quote_row_def)
  from fd num s ms fy ix s' pc fin show ?thesis by blast
qed

section \<open>The two variants\<close>

lemma window_gap: "window 20 19 gap_closes = gap_closes"
  by (simp add: window_def gap_closes_def)

lemma mean_gap: "mean gap_closes = 1"
  by (simp add: mean_def gap_closes_def)

lemma sample_std_gap: "sample_std gap_closes = Fin (1 / 4000)"
proof -
  have v: "sum_list (map (\<lambda>x. (x - 1)\<^sup>2) gap_closes) / real (length gap_closes - 1) = (1 / 4000)\<^sup>2"
    by (simp add: gap_closes_def power2_eq_square)
  have l: "\<not> length gap_closes \<le> 1"
    by (simp add: gap_closes_def)
  have "sqrt ((1 / 4000)\<^sup>2) = (1 / 4000 :: real)"
    by (rule real_sqrt_unique) simp_all
  then show ?thesis
    unfolding sample_std_def mean_gap v using l by simp
qed

lemma latest_band_width_gap: "latest_band_width (map Fin gap_closes) = Fin 0.001"
proof -
  have l: "length gap_closes = 20" by (simp add: gap_closes_def)
  have m: "roll_mean 20 (map Fin gap_closes) 19 = Fin 1"
    using roll_mean_Fin [of 20 19 gap_closes] by (simp add: l window_gap mean_gap)
  have s: "roll_std 20 (map Fin gap_closes) 19 = Fin (1 / 4000)"
    using roll_std_Fin [of 20 19 gap_closes] by (simp add: l window_gap sample_std_gap)
  show ?thesis
    by (simp add: latest_band_width_def band_width_at_def BOLLINGER_PERIOD_def
          BOLLINGER_STD_def l m s fsub_def)
qed

lemma analyze_market_gap:
  "analyze_market v gap_env =
     Some (success_report gap_env (evaluation v gap_env (map Fin gap_closes)), [])"
proof -
  have "analyze_market v gap_env =
     Some (success_report gap_env
            (evaluation v gap_env (map (Fin \<circ> snd) (zip minutes20 gap_closes))), [])"
    by (rule analyze_market_flat)
       (simp_all add: gap_env_def base_env_def minutes20_def gap_closes_def BOLLINGER_PERIOD_def)
  moreover have "map (Fin \<circ> snd) (zip minutes20 gap_closes) = map Fin gap_closes"
    by (simp add: minutes20_def gap_closes_def)
  ultimately show ?thesis by simp
qed

lemma configured_gap: "configured gap_env"
  by (simp add: configured_def falsy_def gap_env_def base_env_def)

text \<open>
  Claim C9 as stated: on identical inputs the dispatch decisions of the two files agree.
  On twenty bars with band width 0.001 at 03:00 UTC, \<open>API/cron.py\<close> (threshold 0.002)
  dispatches and \<open>alert_scheduler.py\<close> (threshold 0.0002) does not.
\<close>

theorem C9_thresholds_differ:
  "dispatch_attempted (fst (run Cron gap_env ())) \<and>
   \<not> dispatch_attempted (fst (run Scheduler gap_env ()))"
proof -
  have h: "now_hour gap_env \<notin> set EXCLUDED_HOURS"
    by (simp add: gap_env_def base_env_def EXCLUDED_HOURS_def)
  have c: "signal (evaluation Cron gap_env (map Fin gap_closes))"
    using h by (simp add: evaluation_def latest_band_width_gap)
  have s: "\<not> signal (evaluation Scheduler gap_env (map Fin gap_closes))"
    by (simp add: evaluation_def latest_band_width_gap)
  have t: "should_dispatch (now_epoch gap_env) ()"
    by (simp add: should_dispatch_def get_last_alert_time_def ALERT_COOLDOWN_def gap_env_def
          base_env_def)
  have "dispatch_attempted (fst (run Cron gap_env ()))"
    unfolding run_success [OF analyze_market_gap] using c t by (simp add: on_analysis_dispatch)
  moreover have "\<not> dispatch_attempted (fst (run Scheduler gap_env ()))"
    unfolding run_success [OF analyze_market_gap] using s configured_gap
    by (simp add: on_analysis_dispatch)
  ultimately show ?thesis by blast
qed

lemma fetch_twelve_data_agree:
  assumes "status_ok (twelve_reply env)"
  shows "(fetch_twelve_data Cron env = Inr f) = (fetch_twelve_data Scheduler env = Inr f)"
  using assms
  by (auto simp add: status_ok_def raise_for_status_def
        split: reply.splits sum.splits td_payload.splits)

lemma fetch_yahoo_fallback_agree:
  assumes "status_ok (yahoo_reply env)"
  shows "(fetch_yahoo_fallback Cron env = Inr f) = (fetch_yahoo_fallback Scheduler env = Inr f)"
  using assms
  by (auto simp add: status_ok_def raise_for_status_def
        split: reply.splits sum.splits yahoo_payload.splits)

lemma fetch_data_Inr_iff:
  "(\<exists>out. fetch_data v env = (Inr f, out)) =
     (fetch_twelve_data v env = Inr f \<or>
      (\<exists>e. fetch_twelve_data v env = Inl e) \<and> fetch_yahoo_fallback v env = Inr f)"
  by (auto simp add: fetch_data_def split: sum.splits)

lemma fetch_data_agree:
  assumes "status_ok (twelve_reply env)" and "status_ok (yahoo_reply env)"
  shows "(\<exists>out. fetch_data Cron env = (Inr f, out)) = (\<exists>out. fetch_data Scheduler env = (Inr f, out))"
proof -
  have fail: "(\<exists>e. fetch_twelve_data Cron env = Inl e) = (\<exists>e. fetch_twelve_data Scheduler env = Inl e)"
  proof -
    have *: "(\<exists>e. fetch_twelve_data v env = Inl e) = (\<forall>g. fetch_twelve_data v env \<noteq> Inr g)" for v
      by (cases "fetch_twelve_data v env") simp_all
    from * [of Cron] * [of Scheduler] fetch_twelve_data_agree [OF assms(1)]
    show ?thesis by blast
  qed
  show ?thesis
    unfolding fetch_data_Inr_iff fail
    by (simp only: fetch_twelve_data_agree [OF assms(1)] fetch_yahoo_fallback_agree [OF assms(2)])
qed

lemma run_dispatch_failed:
  assumes "fetch_data v env = (x, out)" and "analyze_market v env = Some (error_report env msg, out)"
  shows "\<not> dispatch_attempted (fst (run v env s))"
proof -
  have "\<not> dispatch_attempted out"
    by (rule fetch_data_no_dispatch [OF assms(1)])
  then show ?thesis
    unfolding run_fetch_failed [OF assms(2)] by (simp split: variant.splits)
qed

lemma run_dispatch_success:
  assumes "fetch_data v env = (x, out)"
    and "analyze_market v env = Some (success_report env d, out)"
    and "configured env"
  shows "dispatch_attempted (fst (run v env s)) = (signal d \<and> should_dispatch (now_epoch env) s)"
proof -
  have "\<not> dispatch_attempted out"
    by (rule fetch_data_no_dispatch [OF assms(1)])
  then show ?thesis
    unfolding run_success [OF assms(2)] using assms(3)
    by (cases v) (simp_all add: on_analysis_dispatch)
qed

text \<open>
  Claim C9, amended: the two files share the indicator computation, the hour filter, the
  cooldown check and the placeholder store, and differ in the squeeze threshold (0.002
  and 0.0002) and in \<open>raise_for_status\<close>. When neither provider answers with a 4xx or 5xx
  status, each fetch function returns the same series in both files and the analyses
  agree on the status, the price, the band width, the hour and the number of bars; they
  agree on squeeze and signal whenever the band width is on the same side of both
  thresholds, and then, with the Telegram credentials set, on whether a dispatch is
  attempted.
\<close>

theorem C9_variants_agree:
  assumes "status_ok (twelve_reply env)" and "status_ok (yahoo_reply env)"
  shows "(\<forall>f. (fetch_twelve_data Cron env = Inr f) = (fetch_twelve_data Scheduler env = Inr f)) \<and>
         (\<forall>f. (fetch_yahoo_fallback Cron env = Inr f) = (fetch_yahoo_fallback Scheduler env = Inr f)) \<and>
         (\<exists>r1 out1 r2 out2.
            analyze_market Cron env = Some (r1, out1) \<and>
            analyze_market Scheduler env = Some (r2, out2) \<and>
            status r1 = status r2 \<and>
            (data r1 = None) = (data r2 = None) \<and>
            (\<forall>d1 d2. data r1 = Some d1 \<and> data r2 = Some d2 \<longrightarrow>
               price d1 = price d2 \<and> band_width d1 = band_width d2 \<and>
               current_hour d1 = current_hour d2 \<and> is_valid_hour d1 = is_valid_hour d2 \<and>
               bars_analyzed d1 = bars_analyzed d2 \<and>
               threshold d1 = 0.002 \<and> threshold d2 = 0.0002 \<and>
               (flt (band_width d1) (Fin 0.002) = flt (band_width d1) (Fin 0.0002) \<longrightarrow>
                  is_squeeze d1 = is_squeeze d2 \<and> signal d1 = signal d2)) \<and>
            (configured env \<and>
             (\<forall>d1 d2. data r1 = Some d1 \<and> data r2 = Some d2 \<longrightarrow>
                flt (band_width d1) (Fin 0.002) = flt (band_width d1) (Fin 0.0002)) \<longrightarrow>
             dispatch_attempted (fst (run Cron env s)) =
               dispatch_attempted (fst (run Scheduler env s))))"
proof (intro conjI allI)
  fix f
  show "(fetch_twelve_data Cron env = Inr f) = (fetch_twelve_data Scheduler env = Inr f)"
    by (rule fetch_twelve_data_agree [OF assms(1)])
  show "(fetch_yahoo_fallback Cron env = Inr f) = (fetch_yahoo_fallback Scheduler env = Inr f)"
    by (rule fetch_yahoo_fallback_agree [OF assms(2)])
next
  let ?P = "\<lambda>r1 out1 r2 out2.
            analyze_market Cron env = Some (r1, out1) \<and>
            analyze_market Scheduler env = Some (r2, out2) \<and>
            status r1 = status r2 \<and>
            (data r1 = None) = (data r2 = None) \<and>
            (\<forall>d1 d2. data r1 = Some d1 \<and> data r2 = Some d2 \<longrightarrow>
               price d1 = price d2 \<and> band_width d1 = band_width d2 \<and>
               current_hour d1 = current_hour d2 \<and> is_valid_hour d1 = is_valid_hour d2 \<and>
               bars_analyzed d1 = bars_analyzed d2 \<and>
               threshold d1 = 0.002 \<and> threshold d2 = 0.0002 \<and>
               (flt (band_width d1) (Fin 0.002) = flt (band_width d1) (Fin 0.0002) \<longrightarrow>
                  is_squeeze d1 = is_squeeze d2 \<and> signal d1 = signal d2)) \<and>
            (configured env \<and>
             (\<forall>d1 d2. data r1 = Some d1 \<and> data r2 = Some d2 \<longrightarrow>
                flt (band_width d1) (Fin 0.002) = flt (band_width d1) (Fin 0.0002)) \<longrightarrow>
             dispatch_attempted (fst (run Cron env s)) =
               dispatch_attempted (fst (run Scheduler env s)))"
  note agree = fetch_data_agree [OF assms]
  show "\<exists>r1 out1 r2 out2. ?P r1 out1 r2 out2"
  proof (cases Cron env rule: analyze_market_cases)
    case (failed e out)
    have "\<not> (\<exists>f out'. fetch_data Scheduler env = (Inr f, out'))"
      using agree failed(1) by (metis Pair_inject sum.distinct(1))
    then obtain e' out' where fs: "fetch_data Scheduler env = (Inl e', out')"
      by (cases "fetch_data Scheduler env") (metis sum.exhaust_sel sumE)
    have as: "analyze_market Scheduler env =
                Some (error_report env (''Data fetch failed: '' @ e'), out')"
      by (rule analyze_market_fetch_failed [OF fs])
    have "?P (error_report env (''Data fetch failed: '' @ e)) out
             (error_report env (''Data fetch failed: '' @ e')) out'"
      using failed(2) as run_dispatch_failed [OF failed(1) failed(2), of s]
        run_dispatch_failed [OF fs as, of s]
      by (simp add: error_report_def)
    then show ?thesis by - (intro exI, assumption)
  next
    case (short f out)
    from agree short(1) obtain out' where fs: "fetch_data Scheduler env = (Inr f, out')"
      by blast
    have as: "analyze_market Scheduler env =
                Some (error_report env (''Insufficient data: '' @ str_nat (len f) @ '' bars''), out')"
      by (rule analyze_market_insufficient [OF fs short(2)])
    have "?P (error_report env (''Insufficient data: '' @ str_nat (len f) @ '' bars'')) out
             (error_report env (''Insufficient data: '' @ str_nat (len f) @ '' bars'')) out'"
      using short(3) as run_dispatch_failed [OF short(1) short(3), of s]
        run_dispatch_failed [OF fs as, of s]
      by (simp add: error_report_def)
    then show ?thesis by - (intro exI, assumption)
  next
    case (ok f out close)
    from agree ok(1) obtain out' where fs: "fetch_data Scheduler env = (Inr f, out')"
      by blast
    have as: "analyze_market Scheduler env =
                Some (success_report env (evaluation Scheduler env close), out')"
      by (rule analyze_market_success [OF fs ok(2,3,4)])
    let ?d1 = "evaluation Cron env close" and ?d2 = "evaluation Scheduler env close"
    have d: "data (success_report env ?d1) = Some ?d1" "data (success_report env ?d2) = Some ?d2"
      "status (success_report env ?d1) = status (success_report env ?d2)"
      by (simp_all add: success_report_def)
    have same: "price ?d1 = price ?d2 \<and> band_width ?d1 = band_width ?d2 \<and>
               current_hour ?d1 = current_hour ?d2 \<and> is_valid_hour ?d1 = is_valid_hour ?d2 \<and>
               bars_analyzed ?d1 = bars_analyzed ?d2 \<and>
               threshold ?d1 = 0.002 \<and> threshold ?d2 = 0.0002 \<and>
               (flt (band_width ?d1) (Fin 0.002) = flt (band_width ?d1) (Fin 0.0002) \<longrightarrow>
                  is_squeeze ?d1 = is_squeeze ?d2 \<and> signal ?d1 = signal ?d2)"
      by (simp add: evaluation_def)
    have disp: "dispatch_attempted (fst (run Cron env s)) =
               dispatch_attempted (fst (run Scheduler env s))"
      if "configured env" "flt (band_width ?d1) (Fin 0.002) = flt (band_width ?d1) (Fin 0.0002)"
    proof -
      from that(2) have "signal ?d1 = signal ?d2"
        by (simp add: evaluation_def)
      then show ?thesis
        by (simp only: run_dispatch_success [OF ok(1) ok(5) that(1)]
              run_dispatch_success [OF fs as that(1)])
    qed
    have "?P (success_report env ?d1) out (success_report env ?d2) out'"
      using ok(5) as d same disp by auto
    then show ?thesis by - (intro exI, assumption)
  qed
qed

lemma analyze_market_base:
  "analyze_market v base_env =
     Some (success_report base_env (evaluation v base_env (replicate 20 (Fin 1.1))), [])"
proof -
  have "analyze_market v base_env =
     Some (success_report base_env
            (evaluation v base_env (map (Fin \<circ> snd) (zip minutes20 (replicate 20 1.1)))), [])"
    by (rule analyze_market_flat)
       (simp_all add: base_env_def minutes20_def BOLLINGER_PERIOD_def)
  then show ?thesis by (simp only: flat_closes)
qed

theorem C9_variants_agree_witness:
  "status_ok (twelve_reply base_env) \<and> status_ok (yahoo_reply base_env) \<and>
   configured base_env \<and>
   (\<forall>f. (fetch_twelve_data Cron base_env = Inr f) = (fetch_twelve_data Scheduler base_env = Inr f)) \<and>
   dispatch_attempted (fst (run Cron base_env ())) =
     dispatch_attempted (fst (run Scheduler base_env ()))"
proof -
  have ok: "status_ok (twelve_reply base_env)" "status_ok (yahoo_reply base_env)"
    by (simp_all add: status_ok_def base_env_def)
  have cf: "configured base_env"
    by (simp add: configured_def falsy_def base_env_def)
  note t = C9_variants_agree [OF ok, of "()"]
  from t have f: "\<forall>f. (fetch_twelve_data Cron base_env = Inr f) =
                  (fetch_twelve_data Scheduler base_env = Inr f)"
    by (rule conjunct1)
  from t [THEN conjunct2, THEN conjunct2] obtain r1 out1 r2 out2
    where b: "analyze_market Cron base_env = Some (r1, out1) \<and>
            analyze_market Scheduler base_env = Some (r2, out2) \<and>
            status r1 = status r2 \<and>
            (data r1 = None) = (data r2 = None) \<and>
            (\<forall>d1 d2. data r1 = Some d1 \<and> data r2 = Some d2 \<longrightarrow>
               price d1 = price d2 \<and> band_width d1 = band_width d2 \<and>
               current_hour d1 = current_hour d2 \<and> is_valid_hour d1 = is_valid_hour d2 \<and>
               bars_analyzed d1 = bars_analyzed d2 \<and>
               threshold d1 = 0.002 \<and> threshold d2 = 0.0002 \<and>
               (flt (band_width d1) (Fin 0.002) = flt (band_width d1) (Fin 0.0002) \<longrightarrow>
                  is_squeeze d1 = is_squeeze d2 \<and> signal d1 = signal d2)) \<and>
            (configured base_env \<and>
             (\<forall>d1 d2. data r1 = Some d1 \<and> data r2 = Some d2 \<longrightarrow>
                flt (band_width d1) (Fin 0.002) = flt (band_width d1) (Fin 0.0002)) \<longrightarrow>
             dispatch_attempted (fst (run Cron base_env ())) =
               dispatch_attempted (fst (run Scheduler base_env ())))"
    by (elim exE)
  from b have a1: "analyze_market Cron base_env = Some (r1, out1)"
    by (rule conjunct1)
  from b have d: "configured base_env \<and>
             (\<forall>d1 d2. data r1 = Some d1 \<and> data r2 = Some d2 \<longrightarrow>
                flt (band_width d1) (Fin 0.002) = flt (band_width d1) (Fin 0.0002)) \<longrightarrow>
             dispatch_attempted (fst (run Cron base_env ())) =
               dispatch_attempted (fst (run Scheduler base_env ()))"
    by (elim conjE)
  from a1 have r1: "r1 = success_report base_env (evaluation Cron base_env (replicate 20 (Fin 1.1)))"
    by (simp add: analyze_market_base)
  have "flt (band_width d1) (Fin 0.002) = flt (band_width d1) (Fin 0.0002)"
    if "data r1 = Some d1" for d1
  proof -
    from that r1 have "band_width d1 = Fin 0"
      by (auto simp add: success_report_def evaluation_def latest_band_width_flat)
    then show ?thesis by simp
  qed
  with d cf have "dispatch_attempted (fst (run Cron base_env ())) =
               dispatch_attempted (fst (run Scheduler base_env ()))"
    by blast
  with ok cf f show ?thesis by blast
qed

section \<open>The decision\<close>

lemma cell_at_last_Close:
  assumes "cols f ''Close'' = Some close" and "close \<noteq> []"
  shows "cell_at (bands f period std close) ''Close'' (length close - 1) = Some (last close)"
  using assms by (simp add: cell_at_def bands_Close last_conv_nth)

lemma band_width_at_zero:
  assumes "2 \<le> period" "period - 1 \<le> i" "i < n"
  shows "band_width_at period (Fin k) (replicate n (Fin 0)) i = NaN"
proof -
  have p: "0 < period" using assms(1) by simp
  have r: "replicate n (Fin 0) = map Fin (replicate n 0)" by simp
  have l: "i < length (replicate n (0::real))" using assms(3) by simp
  have m: "roll_mean period (replicate n (Fin 0)) i = Fin 0"
    unfolding r roll_mean_Fin [OF p assms(2) l]
    by (simp add: window_replicate [OF p assms(2,3)] mean_replicate [OF p])
  have s: "roll_std period (replicate n (Fin 0)) i = Fin 0"
    unfolding r roll_std_Fin [OF p assms(2) l]
    by (simp add: window_replicate [OF p assms(2,3)] sample_std_replicate [OF assms(1)])
  show ?thesis
    by (simp add: band_width_at_def m s fsub_def)
qed

text \<open>
  Claim C3: whenever the fetch returns at least \<open>BOLLINGER_PERIOD\<close> bars the analysis
  carries an evaluation, and every evaluation is made on the fetched series: its band
  width and price are the \<open>Band_Width\<close> and \<open>Close\<close> that \<open>calculate_bollinger_bands\<close>
  leaves in the last row of the fetched frame, \<open>is_squeeze\<close> is the strict comparison of
  that band width with the file's threshold, which is false for a NaN or infinite band
  width; \<open>is_valid_hour\<close> says that the current UTC hour is not an excluded hour; and
  \<open>signal\<close> is their conjunction.
\<close>

theorem C3_decision:
  "(\<forall>f out. fetch_data v env = (Inr f, out) \<and> \<not> len f < BOLLINGER_PERIOD \<longrightarrow>
      (\<exists>r d. analyze_market v env = Some (r, out) \<and> status r = ''success'' \<and>
         data r = Some d)) \<and>
   (\<forall>r out d. analyze_market v env = Some (r, out) \<and> data r = Some d \<longrightarrow>
      (\<exists>f h' f'.
         fetch_data v env = (Inr f, out) \<and> \<not> len f < BOLLINGER_PERIOD \<and>
         calculate_bollinger_bands [0 \<mapsto> f] 0 BOLLINGER_PERIOD BOLLINGER_STD = Some (h', 0) \<and>
         h' 0 = Some f' \<and>
         cell_at f' ''Band_Width'' (len f - 1) = Some (band_width d) \<and>
         cell_at f' ''Close'' (len f - 1) = Some (price d) \<and>
         bars_analyzed d = len f) \<and>
      threshold d = SQUEEZE_THRESHOLD v \<and>
      is_squeeze d = flt (band_width d) (Fin (threshold d)) \<and>
      current_hour d = now_hour env \<and>
      is_valid_hour d = (current_hour d \<notin> set EXCLUDED_HOURS) \<and>
      signal d = (is_squeeze d \<and> is_valid_hour d) \<and>
      (band_width d = NaN \<or> band_width d = PInf \<longrightarrow> \<not> is_squeeze d \<and> \<not> signal d)) \<and>
   \<not> flt NaN (Fin t) \<and> \<not> flt PInf (Fin t) \<and> \<not> flt (Fin t) (Fin t)"
proof -
  have first: "\<exists>r d. analyze_market v env = Some (r, out) \<and> status r = ''success'' \<and>
         data r = Some d"
    if a: "fetch_data v env = (Inr f, out) \<and> \<not> len f < BOLLINGER_PERIOD" for f out
  proof -
    from a have fd: "fetch_data v env = (Inr f, out)" and long: "\<not> len f < BOLLINGER_PERIOD"
      by simp_all
    from fetch_data_wf [OF fd] obtain close
      where c: "cols f ''Close'' = Some close" "length close = len f"
      by (auto simp add: wf_frame_def split: option.splits)
    from analyze_market_success [OF fd long c] show ?thesis
      by (simp add: success_report_def)
  qed
  have second: "(\<exists>f h' f'.
         fetch_data v env = (Inr f, out) \<and> \<not> len f < BOLLINGER_PERIOD \<and>
         calculate_bollinger_bands [0 \<mapsto> f] 0 BOLLINGER_PERIOD BOLLINGER_STD = Some (h', 0) \<and>
         h' 0 = Some f' \<and>
         cell_at f' ''Band_Width'' (len f - 1) = Some (band_width d) \<and>
         cell_at f' ''Close'' (len f - 1) = Some (price d) \<and>
         bars_analyzed d = len f) \<and>
      threshold d = SQUEEZE_THRESHOLD v \<and>
      is_squeeze d = flt (band_width d) (Fin (threshold d)) \<and>
      current_hour d = now_hour env \<and>
      is_valid_hour d = (current_hour d \<notin> set EXCLUDED_HOURS) \<and>
      signal d = (is_squeeze d \<and> is_valid_hour d) \<and>
      (band_width d = NaN \<or> band_width d = PInf \<longrightarrow> \<not> is_squeeze d \<and> \<not> signal d)"
    if a: "analyze_market v env = Some (r, out) \<and> data r = Some d" for r out d
  proof (cases v env rule: analyze_market_cases)
    case (failed e out')
    with a show ?thesis by (auto simp add: error_report_def)
  next
    case (short f out')
    with a show ?thesis by (auto simp add: error_report_def)
  next
    case (ok f out' close)
    with a have d: "d = evaluation v env close" and o: "out' = out"
      by (auto simp add: success_report_def)
    let ?b = "bands f BOLLINGER_PERIOD BOLLINGER_STD close"
    have ne: "close \<noteq> []"
      using ok(2,4) by (auto simp add: BOLLINGER_PERIOD_def)
    have run: "calculate_bollinger_bands [0 \<mapsto> f] 0 BOLLINGER_PERIOD BOLLINGER_STD =
                 Some ([0 \<mapsto> ?b], 0)"
      using ok(3) by (simp add: calculate_bollinger_bands_eq)
    have w: "cell_at ?b ''Band_Width'' (len f - 1) = Some (band_width d)"
      using ne ok(4) [symmetric]
      by (simp add: cell_at_Band_Width d evaluation_def latest_band_width_def)
    have c: "cell_at ?b ''Close'' (len f - 1) = Some (price d)"
      using cell_at_last_Close [OF ok(3) ne] ok(4) by (simp add: d evaluation_def)
    have n: "bars_analyzed d = len f"
      using ok(4) by (simp add: d evaluation_def)
    have tie: "\<exists>f h' f'.
         fetch_data v env = (Inr f, out) \<and> \<not> len f < BOLLINGER_PERIOD \<and>
         calculate_bollinger_bands [0 \<mapsto> f] 0 BOLLINGER_PERIOD BOLLINGER_STD = Some (h', 0) \<and>
         h' 0 = Some f' \<and>
         cell_at f' ''Band_Width'' (len f - 1) = Some (band_width d) \<and>
         cell_at f' ''Close'' (len f - 1) = Some (price d) \<and>
         bars_analyzed d = len f"
      using ok(1,2) o run w c n
      by (intro exI [of _ f] exI [of _ "[0 \<mapsto> ?b]"] exI [of _ ?b]) simp
    have rest: "threshold d = SQUEEZE_THRESHOLD v \<and>
      is_squeeze d = flt (band_width d) (Fin (threshold d)) \<and>
      current_hour d = now_hour env \<and>
      is_valid_hour d = (current_hour d \<notin> set EXCLUDED_HOURS) \<and>
      signal d = (is_squeeze d \<and> is_valid_hour d) \<and>
      (band_width d = NaN \<or> band_width d = PInf \<longrightarrow> \<not> is_squeeze d \<and> \<not> signal d)"
      unfolding d by (auto simp add: evaluation_def)
    from tie rest show ?thesis by (rule conjI)
  qed
  have third: "\<not> flt NaN (Fin t) \<and> \<not> flt PInf (Fin t) \<and> \<not> flt (Fin t) (Fin t)"
    by simp
  from first second third show ?thesis by blast
qed

lemma flat_frame_Close: "cols (flat_frame tcs) ''Close'' = Some (map (Fin \<circ> snd) tcs)"
  by (simp add: flat_frame_def)

lemma gap_frame_closes: "map (Fin \<circ> snd) (zip minutes20 gap_closes) = map Fin gap_closes"
  by (simp add: minutes20_def gap_closes_def)

lemma latest_band_width_zero: "latest_band_width (replicate 20 (Fin 0)) = NaN"
  unfolding latest_band_width_def BOLLINGER_STD_def
  by (intro band_width_at_zero) (simp_all add: BOLLINGER_PERIOD_def)

theorem C3_decision_witness:
  "fetch_data Scheduler gap_env = (Inr (flat_frame (zip minutes20 gap_closes)), []) \<and>
   \<not> len (flat_frame (zip minutes20 gap_closes)) < BOLLINGER_PERIOD \<and>
   (\<exists>r d. analyze_market Scheduler gap_env = Some (r, []) \<and> data r = Some d \<and>
      band_width d = Fin 0.001 \<and> \<not> is_squeeze d \<and> is_valid_hour d \<and> \<not> signal d) \<and>
   (\<exists>r d. analyze_market Cron gap_env = Some (r, []) \<and> data r = Some d \<and>
      band_width d = Fin 0.001 \<and> is_squeeze d \<and> is_valid_hour d \<and> signal d) \<and>
   (\<exists>r d. analyze_market Cron zero_env = Some (r, []) \<and> data r = Some d \<and>
      band_width d = NaN \<and> \<not> is_squeeze d \<and> \<not> signal d)"
proof -
  have use: "\<exists>r d. analyze_market v env = Some (r, []) \<and> data r = Some d \<and>
      band_width d = latest_band_width (map (Fin \<circ> snd) tcs) \<and>
      is_squeeze d = flt (latest_band_width (map (Fin \<circ> snd) tcs)) (Fin (SQUEEZE_THRESHOLD v)) \<and>
      is_valid_hour d = (now_hour env \<notin> set EXCLUDED_HOURS) \<and>
      signal d = (is_squeeze d \<and> is_valid_hour d)"
    if fd: "fetch_data v env = (Inr (flat_frame tcs), [])"
      and long: "\<not> len (flat_frame tcs) < BOLLINGER_PERIOD"
    for v env tcs
  proof -
    let ?F = "flat_frame tcs" and ?c = "map (Fin \<circ> snd) tcs"
    note t = C3_decision [of v env 0]
    from t fd long obtain r d
      where am: "analyze_market v env = Some (r, [])" and dt: "data r = Some d"
      by blast
    from t am dt obtain f h' f'
      where f: "fetch_data v env = (Inr f, [])"
        and run: "calculate_bollinger_bands [0 \<mapsto> f] 0 BOLLINGER_PERIOD BOLLINGER_STD = Some (h', 0)"
        and h': "h' 0 = Some f'"
        and w: "cell_at f' ''Band_Width'' (len f - 1) = Some (band_width d)"
        and rest: "threshold d = SQUEEZE_THRESHOLD v"
          "is_squeeze d = flt (band_width d) (Fin (threshold d))"
          "current_hour d = now_hour env"
          "is_valid_hour d = (current_hour d \<notin> set EXCLUDED_HOURS)"
          "signal d = (is_squeeze d \<and> is_valid_hour d)"
      by blast
    from f fd have ff: "f = ?F" by simp
    have ne: "?c \<noteq> []" and ln: "len ?F = length ?c"
      using long by (auto simp add: len_def flat_frame_def BOLLINGER_PERIOD_def)
    from run h' have "f' = bands ?F BOLLINGER_PERIOD BOLLINGER_STD ?c"
      unfolding ff by (auto simp add: calculate_bollinger_bands_eq flat_frame_Close)
    with w have "band_width d = latest_band_width ?c"
      unfolding ff using ne by (simp add: ln cell_at_Band_Width latest_band_width_def)
    with am dt rest show ?thesis by auto
  qed
  let ?G = "flat_frame (zip minutes20 gap_closes)"
  have g: "fetch_data v gap_env = (Inr ?G, [])" for v
    by (rule fetch_data_flat) (simp_all add: gap_env_def base_env_def minutes20_def gap_closes_def)
  have gl: "\<not> len ?G < BOLLINGER_PERIOD"
    by (simp add: len_def flat_frame_def minutes20_def gap_closes_def BOLLINGER_PERIOD_def)
  have gh: "now_hour gap_env \<notin> set EXCLUDED_HOURS"
    by (simp add: gap_env_def base_env_def EXCLUDED_HOURS_def)
  let ?Z = "flat_frame (zip minutes20 (replicate 20 0))"
  have z: "fetch_data Cron zero_env = (Inr ?Z, [])"
    by (rule fetch_data_flat) (simp_all add: zero_env_def base_env_def minutes20_def)
  have zl: "\<not> len ?Z < BOLLINGER_PERIOD"
    by (simp add: len_def flat_frame_def minutes20_def BOLLINGER_PERIOD_def)
  from use [OF g gl, of Scheduler] gh
  have a: "\<exists>r d. analyze_market Scheduler gap_env = Some (r, []) \<and> data r = Some d \<and>
      band_width d = Fin 0.001 \<and> \<not> is_squeeze d \<and> is_valid_hour d \<and> \<not> signal d"
    by (auto simp add: gap_frame_closes latest_band_width_gap)
  from use [OF g gl, of Cron] gh
  have b: "\<exists>r d. analyze_market Cron gap_env = Some (r, []) \<and> data r = Some d \<and>
      band_width d = Fin 0.001 \<and> is_squeeze d \<and> is_valid_hour d \<and> signal d"
    by (auto simp add: gap_frame_closes latest_band_width_gap)
  from use [OF z zl]
  have c: "\<exists>r d. analyze_market Cron zero_env = Some (r, []) \<and> data r = Some d \<and>
      band_width d = NaN \<and> \<not> is_squeeze d \<and> \<not> signal d"
    by (auto simp add: flat_closes latest_band_width_zero)
  from g [of Scheduler] gl a b c show ?thesis by blast
qed

end
